theory Spec2Isabelle
  imports Complex_Main "HOL-Library.Word"
begin

section \<open>Python values, exceptions and effects\<close>

text \<open>
  The values the three modules handle: what \<open>json.loads\<close> and \<open>response.json()\<close>
  return, what \<open>os.getenv\<close> returns, and the dictionaries the endpoints answer with.
  A \<open>dict\<close> is the list of its items (keys distinct, as in any Python dict); \<open>None\<close>
  is \<open>PNone\<close>, which is also what JSON \<open>null\<close> decodes to.
\<close>

datatype pyval =
    PNone
  | PBool bool
  | PInt int
  | PFloat real
  | PStr string
  | PList "pyval list"
  | PDict "(string \<times> pyval) list"

text \<open>
  Instances of Python's \<open>Exception\<close>: a \<open>KeyError\<close> with its key; an exception of the
  \<open>requests.exceptions.RequestException\<close> family with its message and, when it carries a
  response, that response's text; and any other class with its name and message. Signals
  outside \<open>Exception\<close> (task cancellation, interpreter exit) are not values of this type:
  no \<open>except Exception\<close> of the source handles them.
\<close>

datatype exn =
    KeyError string
  | RequestException string "string option"
  | Exn string string

text \<open>\<open>str(e)\<close>: a \<open>KeyError\<close> prints the \<open>repr\<close> of its key, the others their message.\<close>

fun str_exn :: "exn \<Rightarrow> string" where
  "str_exn (KeyError k) = CHR 0x27 # k @ [CHR 0x27]"
| "str_exn (RequestException m r) = m"
| "str_exn (Exn c m) = m"

text \<open>Truth value of an object, as \<open>if x\<close>, \<open>not x\<close>, \<open>x or y\<close> and \<open>all\<close> test it.\<close>

fun truthy :: "pyval \<Rightarrow> bool" where
  "truthy PNone = False"
| "truthy (PBool b) = b"
| "truthy (PInt n) = (n \<noteq> 0)"
| "truthy (PFloat x) = (x \<noteq> 0)"
| "truthy (PStr s) = (s \<noteq> [])"
| "truthy (PList xs) = (xs \<noteq> [])"
| "truthy (PDict kvs) = (kvs \<noteq> [])"

text \<open>A text between single quotation marks, as the interpreter's messages show a name.\<close>

definition quoted :: "string \<Rightarrow> string" where
  "quoted s = CHR 0x27 # s @ [CHR 0x27]"

text \<open>The name of a value's type.\<close>

fun type_name :: "pyval \<Rightarrow> string" where
  "type_name PNone = ''NoneType''"
| "type_name (PBool b) = ''bool''"
| "type_name (PInt n) = ''int''"
| "type_name (PFloat x) = ''float''"
| "type_name (PStr s) = ''str''"
| "type_name (PList xs) = ''list''"
| "type_name (PDict kvs) = ''dict''"

text \<open>
  \<open>obj[key]\<close> with a string key: a dict looks the key up and raises \<open>KeyError\<close> when it
  is absent; every other value raises \<open>TypeError\<close>, with the interpreter's message.
\<close>

fun py_getitem :: "pyval \<Rightarrow> string \<Rightarrow> exn + pyval" where
  "py_getitem (PDict kvs) k =
     (case map_of kvs k of None \<Rightarrow> Inl (KeyError k) | Some v \<Rightarrow> Inr v)"
| "py_getitem (PList xs) k =
     Inl (Exn ''TypeError'' ''list indices must be integers or slices, not str'')"
| "py_getitem (PStr s) k =
     Inl (Exn ''TypeError'' (''string indices must be integers, not '' @ quoted ''str''))"
| "py_getitem v k =
     Inl (Exn ''TypeError'' (quoted (type_name v) @ '' object is not subscriptable''))"

text \<open>\<open>d.get(key)\<close> on a dict: the value, or \<open>None\<close>.\<close>

definition dict_get :: "(string \<times> pyval) list \<Rightarrow> string \<Rightarrow> pyval" where
  "dict_get kvs k = (case map_of kvs k of None \<Rightarrow> PNone | Some v \<Rightarrow> v)"

subsection \<open>What the code does to the outside\<close>

datatype level = DEBUG | INFO | WARNING | ERROR

text \<open>An interpolated part of a log or print line: \<open>{x}\<close> of an f-string, \<open>{}\<close> of loguru.\<close>

datatype arg = AVal pyval | AExn exn | AStr string

record rest_client =
  auth_id :: "string option"
  auth_token :: "string option"

record call_request =
  from_ :: pyval
  to_ :: pyval
  answer_url :: string
  answer_method :: string

text \<open>
  The objects \<open>run_bot\<close> of bot.py builds from the pipeline framework, each with the
  arguments the source gives its constructor.
\<close>

datatype vad_analyzer = SileroVADAnalyzer

datatype serializer = PlivoFrameSerializer pyval

record FastAPIWebsocketParams =
  audio_in_enabled :: bool
  audio_out_enabled :: bool
  add_wav_header :: bool
  vad_enabled :: bool
  vad_analyzer :: vad_analyzer
  vad_audio_passthrough :: bool
  serializer :: serializer

record OpenAILLMService =
  llm_api_key :: "string option"
  model :: string

record DeepgramSTTService =
  stt_api_key :: "string option"
  audio_passthrough :: bool

record ElevenLabsTTSService =
  tts_api_key :: "string option"
  voice_id :: "string option"
  push_silence_after_stop :: bool

text \<open>A message of the conversation context: role and content.\<close>

type_synonym message = "string \<times> string"

text \<open>
  A frame processor of the pipeline: the two ends of the transport, the three services,
  the two sides of the context aggregator (over the context's messages) and the audio
  buffer (with its \<open>user_continuous_stream\<close> flag).
\<close>

datatype processor =
    TransportInput FastAPIWebsocketParams
  | STT DeepgramSTTService
  | ContextAggregatorUser "message list"
  | LLM OpenAILLMService
  | TTS ElevenLabsTTSService
  | TransportOutput FastAPIWebsocketParams
  | AudioBufferProcessor bool
  | ContextAggregatorAssistant "message list"

record PipelineParams =
  audio_in_sample_rate :: int
  audio_out_sample_rate :: int
  allow_interruptions :: bool
  enable_metrics :: bool
  disable_buffers :: bool

record PipelineTask =
  pipeline :: "processor list"
  params :: PipelineParams

text \<open>
  One observable action: a log line (level, template, interpolated parts), a call on the
  WebSocket object (\<open>accept\<close>, \<open>receive\<close>, a send, \<open>close\<close>), the call of \<open>run_bot\<close>
  with its stream identifier and testing flag, the provider's \<open>calls.create\<close>, the
  pipeline runner's \<open>run\<close> on a task, a line printed to standard output (template and
  interpolated parts) and an HTTP POST to a URL.
\<close>

datatype event =
    Log level string "arg list"
  | WsAccept
  | WsReceive
  | WsSend pyval
  | WsClose
  | RunBot pyval bool
  | CallsCreate rest_client call_request
  | RunnerRun PipelineTask
  | Print string "arg list"
  | HttpPost string

text \<open>
  A computation: the actions it performed, in order, and how it ended, \<open>Inr\<close> a returned
  value or \<open>Inl\<close> a raised exception.
\<close>

type_synonym 'a comp = "event list \<times> (exn + 'a)"

definition returns :: "'a \<Rightarrow> 'a comp" where
  "returns x = ([], Inr x)"

definition emit :: "event \<Rightarrow> unit comp" where
  "emit ev = ([ev], Inr ())"

definition lift :: "exn + 'a \<Rightarrow> 'a comp" where
  "lift r = ([], r)"

text \<open>Sequencing: an exception of the first part skips the rest.\<close>

definition and_then :: "'a comp \<Rightarrow> ('a \<Rightarrow> 'b comp) \<Rightarrow> 'b comp" where
  "and_then m f =
     (case m of
        (t, Inl e) \<Rightarrow> (t, Inl e)
      | (t, Inr x) \<Rightarrow> (case f x of (t', r) \<Rightarrow> (t @ t', r)))"

definition next_do :: "unit comp \<Rightarrow> 'b comp \<Rightarrow> 'b comp" where
  "next_do m n = and_then m (\<lambda>_. n)"

text \<open>\<open>try: m  except Exception as e: h e\<close>.\<close>

definition try_except :: "'a comp \<Rightarrow> (exn \<Rightarrow> 'a comp) \<Rightarrow> 'a comp" where
  "try_except m h =
     (case m of
        (t, Inl e) \<Rightarrow> (case h e of (t', r) \<Rightarrow> (t @ t', r))
      | (t, Inr x) \<Rightarrow> (t, Inr x))"

text \<open>
  \<open>try: m  finally: fin\<close>: \<open>fin\<close> runs on every exit of \<open>m\<close>, and the exit of \<open>m\<close>
  stands unless \<open>fin\<close> raises itself.
\<close>

definition try_finally :: "'a comp \<Rightarrow> unit comp \<Rightarrow> 'a comp" where
  "try_finally m fin =
     (case m of (t, r) \<Rightarrow>
        (case fin of
           (t', Inl e) \<Rightarrow> (t @ t', Inl e)
         | (t', Inr _) \<Rightarrow> (t @ t', r)))"

section \<open>app.py: startup configuration\<close>

text \<open>The process environment after \<open>load_dotenv()\<close>.\<close>

type_synonym environ = "string \<rightharpoonup> string"

text \<open>
  \<open>os.getenv(k)\<close> is the variable or \<open>None\<close>; \<open>os.getenv(k, d)\<close> is the variable, a
  string, or the default \<open>d\<close> as it is (here an integer).
\<close>

definition getenv :: "environ \<Rightarrow> string \<Rightarrow> string option" where
  "getenv env k = env k"

definition getenv_default :: "environ \<Rightarrow> string \<Rightarrow> pyval \<Rightarrow> pyval" where
  "getenv_default env k d = (case env k of None \<Rightarrow> d | Some s \<Rightarrow> PStr s)"

text \<open>An optional string as a Python object.\<close>

fun of_optional :: "string option \<Rightarrow> pyval" where
  "of_optional None = PNone"
| "of_optional (Some s) = PStr s"

text \<open>\<open>x or y\<close> with \<open>x\<close> an optional string and \<open>y\<close> a string.\<close>

definition py_or :: "string option \<Rightarrow> string \<Rightarrow> string" where
  "py_or x y = (case x of None \<Rightarrow> y | Some s \<Rightarrow> if truthy (PStr s) then s else y)"

text \<open>\<open>all(xs)\<close>.\<close>

definition py_all :: "pyval list \<Rightarrow> bool" where
  "py_all xs = list_all truthy xs"

text \<open>\<open>f"{x}"\<close> of an optional string: \<open>None\<close> formats as the text \<open>None\<close>.\<close>

fun fstr_optional :: "string option \<Rightarrow> string" where
  "fstr_optional None = ''None''"
| "fstr_optional (Some s) = s"

record config =
  PLIVO_AUTH_ID :: "string option"
  PLIVO_AUTH_TOKEN :: "string option"
  PLIVO_FROM_NUMBER :: pyval
  PLIVO_TO_NUMBER :: pyval
  NGROK_URL :: "string option"
  PLIVO_ANSWER_XML :: string
  plivo_client :: "rest_client option"

text \<open>
  \<open>plivo.RestClient(auth_id=..., auth_token=...)\<close>: the handle holds the two credentials.
  The library also checks the form of the identifier and raises when it is malformed; the
  module then fails to load and there is no configuration to speak of. \<open>load_config\<close>
  below is the configuration of a module that did load.
\<close>

definition RestClient :: "string option \<Rightarrow> string option \<Rightarrow> rest_client" where
  "RestClient a t = \<lparr>auth_id = a, auth_token = t\<rparr>"

text \<open>Lines 17 to 30 of app.py, run once when the module is loaded.\<close>

definition load_config :: "environ \<Rightarrow> config" where
  "load_config env =
     (let aid = getenv env ''PLIVO_AUTH_ID'';
          tok = getenv env ''PLIVO_AUTH_TOKEN'';
          frm = getenv_default env ''PLIVO_FROM_NUMBER'' (PInt 918035737766);
          to = getenv_default env ''PLIVO_TO_NUMBER'' (PInt 919671454088);
          ngrok = getenv env ''NGROK_URL'';
          xml = py_or (getenv env ''PLIVO_ANSWER_XML'') (fstr_optional ngrok @ ''/webhook'')
      in \<lparr>PLIVO_AUTH_ID = aid, PLIVO_AUTH_TOKEN = tok, PLIVO_FROM_NUMBER = frm,
          PLIVO_TO_NUMBER = to, NGROK_URL = ngrok, PLIVO_ANSWER_XML = xml,
          plivo_client =
            (if \<not> py_all [of_optional aid, of_optional tok, frm, to, PStr xml] then None
             else Some (RestClient aid tok))\<rparr>)"

section \<open>app.py: POST /start-call\<close>

text \<open>The two shapes of the endpoint's answer.\<close>

definition error_result :: "string \<Rightarrow> pyval" where
  "error_result m = PDict [(''status'', PStr ''error''), (''message'', PStr m)]"

definition success_result :: "pyval \<Rightarrow> pyval" where
  "success_result u = PDict [(''status'', PStr ''success''), (''call_uuid'', u)]"

text \<open>The arguments of \<open>plivo_client.calls.create\<close>.\<close>

definition create_request :: "config \<Rightarrow> call_request" where
  "create_request cfg =
     \<lparr>from_ = PLIVO_FROM_NUMBER cfg, to_ = PLIVO_TO_NUMBER cfg,
      answer_url = PLIVO_ANSWER_XML cfg, answer_method = ''POST''\<rparr>"

text \<open>
  \<open>start_plivo_call\<close>. The provider is the parameter \<open>create\<close>: what
  \<open>plivo_client.calls.create\<close> answers to a request, a response object or an exception.
  The call itself is the action \<open>CallsCreate\<close>.
\<close>

definition start_plivo_call ::
  "config \<Rightarrow> (rest_client \<Rightarrow> call_request \<Rightarrow> exn + pyval) \<Rightarrow> pyval comp" where
  "start_plivo_call cfg create =
     next_do (emit (Log INFO ''Start call endpoint accessed.'' []))
       (case plivo_client cfg of
          None \<Rightarrow>
            next_do (emit (Log ERROR ''Plivo client not configured.'' []))
              (returns (error_result ''Plivo client not configured''))
        | Some client \<Rightarrow>
            try_except
              (next_do (emit (CallsCreate client (create_request cfg)))
                 (and_then (lift (create client (create_request cfg))) (\<lambda>response.
                  and_then (lift (py_getitem response ''request_uuid'')) (\<lambda>uuid.
                  next_do (emit (Log INFO
                     ''Outbound call initiated successfully. Call UUID: {}'' [AVal uuid]))
                  (and_then (lift (py_getitem response ''request_uuid'')) (\<lambda>uuid'.
                  returns (success_result uuid')))))))
              (\<lambda>e.
                 next_do (emit (Log ERROR ''Error initiating outbound call: {}''
                                  [AStr (str_exn e)]))
                   (returns (error_result (str_exn e)))))"

text \<open>The provider calls a run made.\<close>

fun provider_calls :: "event list \<Rightarrow> (rest_client \<times> call_request) list" where
  "provider_calls [] = []"
| "provider_calls (CallsCreate c r # evs) = (c, r) # provider_calls evs"
| "provider_calls (ev # evs) = provider_calls evs"

section \<open>bot.py: the stream bridge\<close>

text \<open>
  What \<open>run_bot\<close> reads and meets outside itself: the process environment, the
  \<open>SYSTEM_PROMPT\<close> imported from prompt.py (\<open>None\<close> when the import failed), an
  exception raised by a constructor while the objects are set up, if any, and the
  exception \<open>runner.run(task)\<close> ends with, if any.
\<close>

record bot_world =
  bot_environ :: environ
  SYSTEM_PROMPT :: "string option"
  setup_raises :: "exn option"
  run_raises :: "PipelineTask \<Rightarrow> exn option"

definition websocket_params :: "pyval \<Rightarrow> FastAPIWebsocketParams" where
  "websocket_params stream_sid =
     \<lparr>audio_in_enabled = True, audio_out_enabled = True, add_wav_header = False,
      vad_enabled = True, vad_analyzer = SileroVADAnalyzer, vad_audio_passthrough = True,
      serializer = PlivoFrameSerializer stream_sid\<rparr>"

definition system_prompt :: "string option \<Rightarrow> string" where
  "system_prompt p =
     (if truthy (of_optional p) then fstr_optional p
      else ''You are a helpful assistant named Mirai. Your output will be converted to audio so don't include special characters in your answers. Respond with a short short sentence. You are developed by a company called Iffort.'')"

text \<open>Lines 109 to 120: the list given to \<open>Pipeline\<close>.\<close>

definition build_pipeline :: "environ \<Rightarrow> string option \<Rightarrow> pyval \<Rightarrow> bool \<Rightarrow> processor list" where
  "build_pipeline env prompt stream_sid testing =
     (let transport = websocket_params stream_sid;
          llm = \<lparr>llm_api_key = getenv env ''OPENAI_API_KEY'', model = ''gpt-4.1''\<rparr>;
          stt = \<lparr>stt_api_key = getenv env ''DEEPGRAM_API_KEY'', audio_passthrough = True\<rparr>;
          tts = \<lparr>tts_api_key = getenv env ''ELEVENLABS_API_KEY'',
                 voice_id = getenv env ''ELEVENLABS_VOICE_ID'',
                 push_silence_after_stop = True\<rparr>;
          messages = [(''system'', system_prompt prompt)];
          audiobuffer = AudioBufferProcessor (\<not> testing)
      in [TransportInput transport,
          STT stt,
          ContextAggregatorUser messages,
          LLM llm,
          TTS tts,
          TransportOutput transport,
          audiobuffer,
          ContextAggregatorAssistant messages])"

text \<open>Lines 122 to 131: the task over the pipeline.\<close>

definition build_task :: "environ \<Rightarrow> string option \<Rightarrow> pyval \<Rightarrow> bool \<Rightarrow> PipelineTask" where
  "build_task env prompt stream_sid testing =
     \<lparr>pipeline = build_pipeline env prompt stream_sid testing,
      params = \<lparr>audio_in_sample_rate = 16000, audio_out_sample_rate = 16000,
                allow_interruptions = True, enable_metrics = True,
                disable_buffers = True\<rparr>\<rparr>"

text \<open>An outside call that ends with an exception or not.\<close>

fun may_raise :: "exn option \<Rightarrow> unit comp" where
  "may_raise None = ([], Inr ())"
| "may_raise (Some e) = ([], Inl e)"

text \<open>
  \<open>run_bot\<close>. The objects are set up outside any \<open>try\<close>; only \<open>runner.run(task)\<close> and
  the log line after it are inside one.
\<close>

definition run_bot :: "bot_world \<Rightarrow> pyval \<Rightarrow> bool \<Rightarrow> unit comp" where
  "run_bot w stream_sid testing =
     next_do (emit (Log INFO ''Initializing bot with stream_sid: {}'' [AVal stream_sid]))
    (next_do (may_raise (setup_raises w))
    (and_then (returns (build_task (bot_environ w) (SYSTEM_PROMPT w) stream_sid testing))
       (\<lambda>task.
     next_do (emit (Log DEBUG ''Pipeline and services initialized successfully.'' []))
    (try_except
       (next_do (emit (RunnerRun task))
       (next_do (may_raise (run_raises w task))
                (emit (Log INFO ''Pipeline runner executed successfully.'' []))))
       (\<lambda>e. emit (Log ERROR ''Error during pipeline execution: {}'' [AExn e]))))))"

section \<open>app.py: WS /stream\<close>

text \<open>
  What the handler meets outside itself: the exception \<open>websocket.accept()\<close> ends with,
  if any; the message \<open>websocket.receive()\<close> returns, a dict, or the exception it raises;
  \<open>json.loads\<close>; and the world of \<open>run_bot\<close>.
\<close>

record ws_world =
  accept_raises :: "exn option"
  received :: "exn + (string \<times> pyval) list"
  loads :: "pyval \<Rightarrow> exn + pyval"
  bot :: bot_world

text \<open>Lines 105 to 114, the block of the \<open>try\<close>; its \<open>return\<close> ends the block.\<close>

definition stream_try_block :: "ws_world \<Rightarrow> unit comp" where
  "stream_try_block w =
     next_do (emit WsReceive)
    (and_then (lift (received w)) (\<lambda>message.
     and_then (returns (dict_get message ''text'')) (\<lambda>textFromWebSocket.
     if textFromWebSocket = PNone then
       next_do (emit (Log WARNING ''No text received from WebSocket.'' []))
               (returns ())
     else
       and_then (lift (loads w textFromWebSocket)) (\<lambda>data.
       and_then (lift (py_getitem data ''event'')) (\<lambda>event.
       if event = PStr ''start'' then
         and_then (lift (py_getitem data ''start'')) (\<lambda>start.
         and_then (lift (py_getitem start ''streamId'')) (\<lambda>stream_id.
         next_do (emit (Log INFO ''WebSocket connection accepted. Stream ID: {}''
                          [AVal stream_id]))
        (next_do (emit (RunBot stream_id True))
                 (run_bot (bot w) stream_id True))))
       else returns ())))))"

text \<open>
  \<open>websocket_endpoint\<close>: \<open>accept\<close> is awaited before the \<open>try\<close>; the \<open>except\<close> and
  the \<open>finally\<close> each write one log line.
\<close>

definition websocket_endpoint :: "ws_world \<Rightarrow> unit comp" where
  "websocket_endpoint w =
     next_do (emit (Log INFO ''WebSocket endpoint accessed.'' []))
    (next_do (emit WsAccept)
    (next_do (may_raise (accept_raises w))
    (try_finally
       (try_except
          (stream_try_block w)
          (\<lambda>e. emit (Log ERROR ''Error in WebSocket communication: {}''
                         [AStr (str_exn e)])))
       (emit (Log INFO ''WebSocket connection closed.'' [])))))"

text \<open>The calls of \<open>run_bot\<close> a run made, with their arguments.\<close>

fun bridge_calls :: "event list \<Rightarrow> (pyval \<times> bool) list" where
  "bridge_calls [] = []"
| "bridge_calls (RunBot sid testing # evs) = (sid, testing) # bridge_calls evs"
| "bridge_calls (ev # evs) = bridge_calls evs"

text \<open>The messages a run sent on the socket.\<close>

fun sent_messages :: "event list \<Rightarrow> pyval list" where
  "sent_messages [] = []"
| "sent_messages (WsSend m # evs) = m # sent_messages evs"
| "sent_messages (ev # evs) = sent_messages evs"

text \<open>The tasks a run gave to the pipeline runner.\<close>

fun runner_tasks :: "event list \<Rightarrow> PipelineTask list" where
  "runner_tasks [] = []"
| "runner_tasks (RunnerRun task # evs) = task # runner_tasks evs"
| "runner_tasks (ev # evs) = runner_tasks evs"




section \<open>bot.py: audio archival\<close>

type_synonym bytes = "8 word list"

text \<open>
  A WAV file as the standard \<open>wave\<close> module writes it: the three parameters its header
  encodes, and the frames.
\<close>

record wav =
  sampwidth :: int
  nchannels :: int
  framerate :: int
  frames :: bytes

text \<open>
  The block of lines 53 to 57: \<open>setsampwidth\<close>, \<open>setnchannels\<close>, \<open>setframerate\<close>,
  \<open>writeframes\<close>, and the \<open>close\<close> that leaving the block runs. The setters refuse a
  width outside 1..4, a channel count below 1 and a frame rate not above 0; the header is
  packed with \<open>struct\<close> into 16-bit and 32-bit unsigned fields, which refuses a value
  that does not fit; the length field is patched to the bytes written.
\<close>

definition wave_write :: "int \<Rightarrow> int \<Rightarrow> int \<Rightarrow> bytes \<Rightarrow> exn + wav" where
  "wave_write width channels rate data =
     (let written = int (length data);
          datalength = (written div (channels * width)) * channels * width
      in if width < 1 \<or> 4 < width then Inl (Exn ''wave.Error'' ''bad sample width'')
         else if channels < 1 then Inl (Exn ''wave.Error'' ''# channels not specified'')
         else if rate \<le> 0 then Inl (Exn ''wave.Error'' ''sampling rate not specified'')
         else if 4294967295 < 36 + datalength
           then Inl (Exn ''struct.error'' (quoted ''L'' @ '' format requires 0 <= number <= 4294967295''))
         else if 65535 < channels
           then Inl (Exn ''struct.error'' ''ushort format requires 0 <= number <= 65535'')
         else if 4294967295 < rate \<or> 4294967295 < channels * rate * width
           then Inl (Exn ''struct.error'' (quoted ''L'' @ '' format requires 0 <= number <= 4294967295''))
         else if 65535 < channels * width
           then Inl (Exn ''struct.error'' ''ushort format requires 0 <= number <= 65535'')
         else if datalength \<noteq> written \<and> 4294967295 < 36 + written
           then Inl (Exn ''struct.error'' (quoted ''L'' @ '' format requires 0 <= number <= 4294967295''))
         else Inr \<lparr>sampwidth = width, nchannels = channels, framerate = rate,
                   frames = data\<rparr>)"

text \<open>
  The file system: absolute paths, as the list of their components, to directories and
  files.
\<close>

datatype node = Dir | WavFile wav | OtherFile

type_synonym path = "string list"

type_synonym filesystem = "path \<rightharpoonup> node"

text \<open>\<open>Path.parent\<close>; the root is its own parent.\<close>

definition parent :: "path \<Rightarrow> path" where
  "parent p = butlast p"

text \<open>
  \<open>dir / name\<close> of pathlib: the name is cut at its slashes, empty and \<open>.\<close> components
  are dropped, and a name that starts with a slash replaces the directory.
\<close>

fun split_slash :: "string \<Rightarrow> string list" where
  "split_slash [] = [[]]"
| "split_slash (c # cs) =
     (if c = CHR ''/'' then [] # split_slash cs
      else (case split_slash cs of [] \<Rightarrow> [[c]] | w # ws \<Rightarrow> (c # w) # ws))"

definition path_parts :: "string \<Rightarrow> string list" where
  "path_parts s = filter (\<lambda>w. w \<noteq> [] \<and> w \<noteq> ''.'') (split_slash s)"

definition joinpath :: "path \<Rightarrow> string \<Rightarrow> path" where
  "joinpath dir name =
     (case name of
        [] \<Rightarrow> dir
      | c # cs \<Rightarrow> if c = CHR ''/'' then path_parts name else dir @ path_parts name)"

definition str_path :: "path \<Rightarrow> string" where
  "str_path p = (if p = [] then ''/'' else concat (map (\<lambda>c. ''/'' @ c) p))"

text \<open>
  \<open>dir.mkdir(exist_ok=True)\<close>: nothing to do when the directory exists; an error when the
  path is a file or the parent is not a directory.
\<close>

definition mkdir_exist_ok :: "filesystem \<Rightarrow> path \<Rightarrow> exn + filesystem" where
  "mkdir_exist_ok fs p =
     (case fs p of
        Some Dir \<Rightarrow> Inr fs
      | Some f \<Rightarrow> Inl (Exn ''FileExistsError'' (str_path p))
      | None \<Rightarrow>
          if fs (parent p) = Some Dir then Inr (fs(p \<mapsto> Dir))
          else Inl (Exn ''FileNotFoundError'' (str_path p)))"

text \<open>
  Opening a path with mode \<open>wb\<close> and writing the content: the file is created, or
  replaced when it exists; an error when the path is a directory or its parent is not one.
\<close>

definition write_wb :: "filesystem \<Rightarrow> path \<Rightarrow> wav \<Rightarrow> exn + filesystem" where
  "write_wb fs p content =
     (if fs p = Some Dir then Inl (Exn ''IsADirectoryError'' (str_path p))
      else if fs (parent p) \<noteq> Some Dir then Inl (Exn ''FileNotFoundError'' (str_path p))
      else Inr (fs(p \<mapsto> WavFile content)))"

text \<open>The clock: \<open>datetime.datetime.now()\<close>.\<close>

record datetime =
  year :: nat
  month :: nat
  day :: nat
  hour :: nat
  minute :: nat
  second :: nat
  microsecond :: nat

text \<open>A number in decimal, and padded with zeros to two digits.\<close>

fun dec :: "nat \<Rightarrow> string" where
  "dec n = (if n < 10 then [''0123456789'' ! n]
            else dec (n div 10) @ [''0123456789'' ! (n mod 10)])"

declare dec.simps [simp del]

definition pad2 :: "nat \<Rightarrow> string" where
  "pad2 n = replicate (2 - length (dec n)) (CHR ''0'') @ dec n"

text \<open>\<open>now.strftime('%Y%m%d_%H%M%S')\<close>.\<close>

definition strftime :: "datetime \<Rightarrow> string" where
  "strftime t =
     dec (year t) @ pad2 (month t) @ pad2 (day t) @ ''_'' @
     pad2 (hour t) @ pad2 (minute t) @ pad2 (second t)"

definition recording_name :: "string \<Rightarrow> datetime \<Rightarrow> string" where
  "recording_name server_name now = server_name @ ''_recording_'' @ strftime now @ ''.wav''"

text \<open>
  \<open>save_audio\<close>, with the directory of bot.py, the clock and the file system it runs in;
  it returns the file system it leaves.
\<close>

definition save_audio ::
  "path \<Rightarrow> datetime \<Rightarrow> filesystem \<Rightarrow> string \<Rightarrow> bytes \<Rightarrow> int \<Rightarrow> int
     \<Rightarrow> filesystem \<times> unit comp" where
  "save_audio current_dir now fs server_name audio sample_rate num_channels =
     (if length audio > 0 then
        (let recordings_dir = parent current_dir @ [''recordings'']
         in case mkdir_exist_ok fs recordings_dir of
              Inl e \<Rightarrow> (fs, [], Inl e)
            | Inr fs1 \<Rightarrow>
               (let filename = joinpath recordings_dir (recording_name server_name now)
                in case wave_write 2 num_channels sample_rate audio of
                     Inl e \<Rightarrow> (fs1, [], Inl e)
                   | Inr content \<Rightarrow>
                      (case write_wb fs1 filename content of
                         Inl e \<Rightarrow> (fs1, [], Inl e)
                       | Inr fs2 \<Rightarrow>
                           (fs2, [Log INFO ''Merged audio saved to {}''
                                    [AStr (str_path filename)]], Inr ()))))
      else (fs, [Log INFO ''No audio data to save'' []], Inr ()))"

text \<open>The WAV files of a file system.\<close>

definition wav_files :: "filesystem \<Rightarrow> path set" where
  "wav_files fs = {p. \<exists>w. fs p = Some (WavFile w)}"

section \<open>make_call.py: the CLI caller\<close>

text \<open>
  The answer \<open>requests.post\<close> returns: status line, URL, body text, and what
  \<open>response.json()\<close> gives for that body, a value or the exception it raises.
\<close>

record response =
  status_code :: nat
  reason :: string
  resp_url :: string
  resp_text :: string
  json_result :: "exn + pyval"

text \<open>
  \<open>response.raise_for_status()\<close> of the requests library: an \<open>HTTPError\<close>, which is a
  \<open>RequestException\<close> carrying the response, for a status from 400 to 599, and nothing
  for any other status.
\<close>

definition raise_for_status :: "response \<Rightarrow> exn + unit" where
  "raise_for_status r =
     (if 400 \<le> status_code r \<and> status_code r < 500 then
        Inl (RequestException
               (dec (status_code r) @ '' Client Error: '' @ reason r @ '' for url: '' @ resp_url r)
               (Some (resp_text r)))
      else if 500 \<le> status_code r \<and> status_code r < 600 then
        Inl (RequestException
               (dec (status_code r) @ '' Server Error: '' @ reason r @ '' for url: '' @ resp_url r)
               (Some (resp_text r)))
      else Inr ())"

text \<open>\<open>s.rstrip("/")\<close>.\<close>

definition rstrip_slash :: "string \<Rightarrow> string" where
  "rstrip_slash s = rev (dropWhile (\<lambda>c. c = CHR ''/'') (rev s))"

text \<open>
  \<open>try: m  except requests.exceptions.RequestException as e: h\<close>: only exceptions of
  that family are handled, any other goes on.
\<close>

definition try_except_request ::
  "'a comp \<Rightarrow> (string \<Rightarrow> string option \<Rightarrow> 'a comp) \<Rightarrow> 'a comp" where
  "try_except_request m h =
     (case m of
        (t, Inl (RequestException msg r)) \<Rightarrow> (case h msg r of (t', x) \<Rightarrow> (t @ t', x))
      | (t, x) \<Rightarrow> (t, x))"

text \<open>The URL the request goes to.\<close>

definition call_url :: "string \<Rightarrow> string \<Rightarrow> string" where
  "call_url server_url phone_number = rstrip_slash server_url @ ''/call/'' @ phone_number"

text \<open>\<open>make_call\<close>, with \<open>requests.post\<close> as the parameter \<open>post\<close>.\<close>

definition make_call ::
  "(string \<Rightarrow> exn + response) \<Rightarrow> string \<Rightarrow> string option \<Rightarrow> pyval comp" where
  "make_call post phone_number server_url =
     (let server_url = (case server_url of None \<Rightarrow> ''http://localhost:8765'' | Some u \<Rightarrow> u)
      in try_except_request
           (next_do (emit (HttpPost (call_url server_url phone_number)))
           (and_then (lift (post (call_url server_url phone_number))) (\<lambda>response.
            next_do (lift (raise_for_status response))
                    (lift (json_result response)))))
           (\<lambda>msg r.
              next_do (emit (Print ''Error making call: {}'' [AStr msg]))
             (next_do (case r of
                         None \<Rightarrow> returns ()
                       | Some t \<Rightarrow> emit (Print ''Response: {}'' [AStr t]))
                      (returns PNone))))"

text \<open>The parsed command line: the positional phone number and the optional \<open>-u URL\<close>.\<close>

record cli_args =
  phone_number :: string
  url :: "string option"

text \<open>
  How the process ends: \<open>main\<close> returns, \<open>sys.exit(n)\<close>, or an exception nobody handles,
  which the interpreter reports with a traceback and status 1.
\<close>

datatype ending = Finished | SysExit int | Traceback exn

fun exit_status :: "ending \<Rightarrow> int" where
  "exit_status Finished = 0"
| "exit_status (SysExit n) = n"
| "exit_status (Traceback e) = 1"

text \<open>\<open>os.getenv(k, d)\<close> with a string default.\<close>

definition getenv_or :: "environ \<Rightarrow> string \<Rightarrow> string \<Rightarrow> string" where
  "getenv_or env k d = (case env k of None \<Rightarrow> d | Some s \<Rightarrow> s)"

definition main ::
  "cli_args \<Rightarrow> environ \<Rightarrow> (string \<Rightarrow> exn + response) \<Rightarrow> event list \<times> ending" where
  "main args env post =
     (let server_url = py_or (url args) (getenv_or env ''SERVER_URL'' ''http://localhost:8765'')
      in case make_call post (phone_number args) (Some server_url) of
           (t, Inl e) \<Rightarrow> (t, Traceback e)
         | (t, Inr result) \<Rightarrow>
             if truthy result then
               (case result of
                  PDict kvs \<Rightarrow>
                    (t @ [Print ''Call initiated successfully! Call SID: {}''
                            [AVal (dict_get kvs ''call_sid'')]], Finished)
                | v \<Rightarrow> (t, Traceback (Exn ''AttributeError''
                         (quoted (type_name v) @ '' object has no attribute '' @ quoted ''get''))))
             else (t @ [Print ''Failed to initiate call.'' []], SysExit 1))"

text \<open>The HTTP requests a run made.\<close>

fun http_posts :: "event list \<Rightarrow> string list" where
  "http_posts [] = []"
| "http_posts (HttpPost u # evs) = u # http_posts evs"
| "http_posts (ev # evs) = http_posts evs"

section \<open>app.py: the routes\<close>










section \<open>Properties of the call initiator\<close>

lemmas comp_defs = returns_def emit_def lift_def and_then_def next_do_def try_except_def try_finally_def

lemma truthy_of_optional: "truthy (of_optional x) \<longleftrightarrow> (x \<noteq> None \<and> x \<noteq> Some [])"
  by (cases x) auto

lemma truthy_getenv_default: "truthy d \<Longrightarrow> truthy (getenv_default env k d) \<longleftrightarrow> env k \<noteq> Some []"
  by (auto simp: getenv_default_def split: option.splits)

lemma py_or_nonempty: "y \<noteq> [] \<Longrightarrow> py_or x y \<noteq> []"
  by (auto simp: py_or_def split: option.splits)

lemma plivo_client_load_config:
  "plivo_client (load_config env) =
     (if env ''PLIVO_AUTH_ID'' = None \<or> env ''PLIVO_AUTH_ID'' = Some [] \<or>
         env ''PLIVO_AUTH_TOKEN'' = None \<or> env ''PLIVO_AUTH_TOKEN'' = Some [] \<or>
         env ''PLIVO_FROM_NUMBER'' = Some [] \<or> env ''PLIVO_TO_NUMBER'' = Some []
      then None
      else Some (RestClient (env ''PLIVO_AUTH_ID'') (env ''PLIVO_AUTH_TOKEN'')))"
  by (simp add: load_config_def Let_def py_all_def getenv_def truthy_of_optional
        truthy_getenv_default py_or_nonempty)

lemma start_plivo_call_unconfigured:
  "plivo_client cfg = None \<Longrightarrow>
   start_plivo_call cfg create =
     ([Log INFO ''Start call endpoint accessed.'' [], Log ERROR ''Plivo client not configured.'' []],
      Inr (error_result ''Plivo client not configured''))"
  by (simp add: start_plivo_call_def comp_defs)

lemma start_plivo_call_raised:
  "plivo_client cfg = Some client \<Longrightarrow> create client (create_request cfg) = Inl e \<Longrightarrow>
   start_plivo_call cfg create =
     ([Log INFO ''Start call endpoint accessed.'' [], CallsCreate client (create_request cfg),
       Log ERROR ''Error initiating outbound call: {}'' [AStr (str_exn e)]],
      Inr (error_result (str_exn e)))"
  by (simp add: start_plivo_call_def comp_defs)

lemma start_plivo_call_no_uuid:
  "plivo_client cfg = Some client \<Longrightarrow> create client (create_request cfg) = Inr response \<Longrightarrow>
   py_getitem response ''request_uuid'' = Inl e \<Longrightarrow>
   start_plivo_call cfg create =
     ([Log INFO ''Start call endpoint accessed.'' [], CallsCreate client (create_request cfg),
       Log ERROR ''Error initiating outbound call: {}'' [AStr (str_exn e)]],
      Inr (error_result (str_exn e)))"
  by (simp add: start_plivo_call_def comp_defs)

lemma start_plivo_call_uuid:
  "plivo_client cfg = Some client \<Longrightarrow> create client (create_request cfg) = Inr response \<Longrightarrow>
   py_getitem response ''request_uuid'' = Inr uuid \<Longrightarrow>
   start_plivo_call cfg create =
     ([Log INFO ''Start call endpoint accessed.'' [], CallsCreate client (create_request cfg),
       Log INFO ''Outbound call initiated successfully. Call UUID: {}'' [AVal uuid]],
      Inr (success_result uuid))"
  by (simp add: start_plivo_call_def comp_defs)

lemma start_plivo_call_cases:
  "(\<exists>m. snd (start_plivo_call cfg create) = Inr (error_result m)) \<or>
   (\<exists>u. snd (start_plivo_call cfg create) = Inr (success_result u))"
proof (cases "plivo_client cfg")
  case None
  then show ?thesis by (auto simp: start_plivo_call_unconfigured)
next
  case (Some client)
  show ?thesis
  proof (cases "create client (create_request cfg)")
    case (Inl e)
    with Some show ?thesis by (auto simp: start_plivo_call_raised)
  next
    case (Inr response)
    show ?thesis
    proof (cases "py_getitem response ''request_uuid''")
      case (Inl e)
      with Some Inr show ?thesis by (auto simp: start_plivo_call_no_uuid)
    next
      case inr: (Inr uuid)
      with Some Inr show ?thesis by (auto simp: start_plivo_call_uuid)
    qed
  qed
qed

text \<open>
  C3. \<open>POST /start-call\<close> never raises to its caller: every invocation returns one of
  the two structured results, an error with a message or a success with a call
  identifier. When the client is not configured the result is the error
  \<open>Plivo client not configured\<close> and the provider is not called; a missing
  \<open>PLIVO_AUTH_ID\<close> or \<open>PLIVO_AUTH_TOKEN\<close> at startup leaves the client unconfigured.
  When the provider's call raises, the exception is caught and its text is the message of
  the error returned.
\<close>

theorem start_plivo_call_never_raises:
  "((\<exists>m. snd (start_plivo_call cfg create) = Inr (error_result m)) \<or>
    (\<exists>u. snd (start_plivo_call cfg create) = Inr (success_result u))) \<and>
   (plivo_client cfg = None \<longrightarrow>
      snd (start_plivo_call cfg create) = Inr (error_result ''Plivo client not configured'') \<and>
      provider_calls (fst (start_plivo_call cfg create)) = []) \<and>
   (\<forall>client e. plivo_client cfg = Some client \<and> create client (create_request cfg) = Inl e \<longrightarrow>
      snd (start_plivo_call cfg create) = Inr (error_result (str_exn e))) \<and>
   (env ''PLIVO_AUTH_ID'' = None \<or> env ''PLIVO_AUTH_TOKEN'' = None \<longrightarrow>
      plivo_client (load_config env) = None)"
  using start_plivo_call_cases [of cfg create]
  by (auto simp: start_plivo_call_unconfigured start_plivo_call_raised plivo_client_load_config)

theorem start_plivo_call_never_raises_witness:
  "plivo_client (load_config Map.empty) = None \<and>
   snd (start_plivo_call (load_config Map.empty) (\<lambda>c r. Inr PNone)) =
     Inr (PDict [(''status'', PStr ''error''), (''message'', PStr ''Plivo client not configured'')]) \<and>
   provider_calls (fst (start_plivo_call (load_config Map.empty) (\<lambda>c r. Inr PNone))) = [] \<and>
   snd (start_plivo_call
          (load_config [''PLIVO_AUTH_ID'' \<mapsto> ''MAXXXXXXXXXXXXXXXXXX'', ''PLIVO_AUTH_TOKEN'' \<mapsto> ''secret''])
          (\<lambda>c r. Inl (Exn ''PlivoRestError'' ''invalid number''))) =
     Inr (PDict [(''status'', PStr ''error''), (''message'', PStr ''invalid number'')])"
proof -
  have none: "plivo_client (load_config Map.empty) = None"
    by (simp add: plivo_client_load_config)
  have some: "plivo_client (load_config [''PLIVO_AUTH_ID'' \<mapsto> ''MAXXXXXXXXXXXXXXXXXX'', ''PLIVO_AUTH_TOKEN'' \<mapsto> ''secret''])
      = Some \<lparr>auth_id = Some ''MAXXXXXXXXXXXXXXXXXX'', auth_token = Some ''secret''\<rparr>"
    by (simp add: plivo_client_load_config RestClient_def)
  show ?thesis
    using none some
      start_plivo_call_never_raises [of "load_config Map.empty" "\<lambda>c r. Inr PNone" Map.empty]
      start_plivo_call_never_raises [of
        "load_config [''PLIVO_AUTH_ID'' \<mapsto> ''MAXXXXXXXXXXXXXXXXXX'', ''PLIVO_AUTH_TOKEN'' \<mapsto> ''secret'']"
        "\<lambda>c r. Inl (Exn ''PlivoRestError'' ''invalid number'')" Map.empty]
    by (simp add: error_result_def)
qed

text \<open>
  C4. When the client is configured, the provider's call succeeds and its response holds a
  \<open>request_uuid\<close>, the endpoint answers exactly
  \<open>{"status": "success", "call_uuid": request_uuid}\<close>, after one call to the provider.
\<close>

theorem start_plivo_call_success:
  assumes "plivo_client cfg = Some client"
    and "create client (create_request cfg) = Inr response"
    and "py_getitem response ''request_uuid'' = Inr uuid"
  shows "snd (start_plivo_call cfg create) =
           Inr (PDict [(''status'', PStr ''success''), (''call_uuid'', uuid)]) \<and>
         provider_calls (fst (start_plivo_call cfg create)) = [(client, create_request cfg)]"
  using assms by (simp add: start_plivo_call_uuid success_result_def)

theorem start_plivo_call_success_witness:
  "snd (start_plivo_call
          (load_config [''PLIVO_AUTH_ID'' \<mapsto> ''MAXXXXXXXXXXXXXXXXXX'', ''PLIVO_AUTH_TOKEN'' \<mapsto> ''secret''])
          (\<lambda>c r. Inr (PDict [(''request_uuid'', PStr ''abc-123'')]))) =
     Inr (PDict [(''status'', PStr ''success''), (''call_uuid'', PStr ''abc-123'')])"
proof -
  have some: "plivo_client (load_config [''PLIVO_AUTH_ID'' \<mapsto> ''MAXXXXXXXXXXXXXXXXXX'', ''PLIVO_AUTH_TOKEN'' \<mapsto> ''secret''])
      = Some \<lparr>auth_id = Some ''MAXXXXXXXXXXXXXXXXXX'', auth_token = Some ''secret''\<rparr>"
    by (simp add: plivo_client_load_config RestClient_def)
  have uuid: "py_getitem (PDict [(''request_uuid'', PStr ''abc-123'')]) ''request_uuid'' = Inr (PStr ''abc-123'')"
    by simp
  show ?thesis
    using start_plivo_call_success [OF some _ uuid, of "\<lambda>c r. Inr (PDict [(''request_uuid'', PStr ''abc-123'')])"]
    by simp
qed

section \<open>Properties of the startup check\<close>

lemma load_config_defaults:
  "(env ''PLIVO_FROM_NUMBER'' = None \<longrightarrow> PLIVO_FROM_NUMBER (load_config env) = PInt 918035737766) \<and>
   (env ''PLIVO_TO_NUMBER'' = None \<longrightarrow> PLIVO_TO_NUMBER (load_config env) = PInt 919671454088)"
  by (simp add: load_config_def Let_def getenv_default_def)

lemma answer_xml_nonempty: "PLIVO_ANSWER_XML (load_config env) \<noteq> []"
  by (simp add: load_config_def Let_def py_or_nonempty)

lemma answer_xml_fallback:
  "env ''PLIVO_ANSWER_XML'' = None \<Longrightarrow> env ''NGROK_URL'' = None \<Longrightarrow> PLIVO_ANSWER_XML (load_config env) = ''None/webhook''"
  by (simp add: load_config_def Let_def py_or_def getenv_def)

text \<open>
  C10, as amended. The startup check disables the call initiator exactly when
  \<open>PLIVO_AUTH_ID\<close> or \<open>PLIVO_AUTH_TOKEN\<close> is unset or empty, or \<open>PLIVO_FROM_NUMBER\<close>
  or \<open>PLIVO_TO_NUMBER\<close> is set to the empty string. An unset from-number or to-number
  falls back to a non-zero integer default, and the answer URL is always a non-empty
  string, \<open>None/webhook\<close> when neither it nor \<open>NGROK_URL\<close> is set; so an unset number or
  URL variable never produces the unconfigured state.
\<close>

theorem startup_check_disables_exactly:
  "(plivo_client (load_config env) = None \<longleftrightarrow>
      env ''PLIVO_AUTH_ID'' = None \<or> env ''PLIVO_AUTH_ID'' = Some [] \<or>
      env ''PLIVO_AUTH_TOKEN'' = None \<or> env ''PLIVO_AUTH_TOKEN'' = Some [] \<or>
      env ''PLIVO_FROM_NUMBER'' = Some [] \<or> env ''PLIVO_TO_NUMBER'' = Some []) \<and>
   (env ''PLIVO_FROM_NUMBER'' = None \<longrightarrow>
      PLIVO_FROM_NUMBER (load_config env) = PInt 918035737766 \<and>
      truthy (PLIVO_FROM_NUMBER (load_config env))) \<and>
   (env ''PLIVO_TO_NUMBER'' = None \<longrightarrow>
      PLIVO_TO_NUMBER (load_config env) = PInt 919671454088 \<and>
      truthy (PLIVO_TO_NUMBER (load_config env))) \<and>
   PLIVO_ANSWER_XML (load_config env) \<noteq> [] \<and>
   (env ''PLIVO_ANSWER_XML'' = None \<and> env ''NGROK_URL'' = None \<longrightarrow>
      PLIVO_ANSWER_XML (load_config env) = ''None/webhook'')"
  using load_config_defaults [of env] answer_xml_nonempty [of env] answer_xml_fallback [of env]
  by (simp add: plivo_client_load_config)

theorem startup_check_disables_exactly_witness:
  "plivo_client (load_config [''PLIVO_AUTH_ID'' \<mapsto> ''MAXXXXXXXXXXXXXXXXXX'',
                              ''PLIVO_AUTH_TOKEN'' \<mapsto> ''secret'']) \<noteq> None \<and>
   PLIVO_FROM_NUMBER (load_config [''PLIVO_AUTH_ID'' \<mapsto> ''MAXXXXXXXXXXXXXXXXXX'',
                              ''PLIVO_AUTH_TOKEN'' \<mapsto> ''secret'']) = PInt 918035737766 \<and>
   PLIVO_TO_NUMBER (load_config [''PLIVO_AUTH_ID'' \<mapsto> ''MAXXXXXXXXXXXXXXXXXX'',
                              ''PLIVO_AUTH_TOKEN'' \<mapsto> ''secret'']) = PInt 919671454088 \<and>
   PLIVO_ANSWER_XML (load_config [''PLIVO_AUTH_ID'' \<mapsto> ''MAXXXXXXXXXXXXXXXXXX'',
                              ''PLIVO_AUTH_TOKEN'' \<mapsto> ''secret'']) = ''None/webhook''"
  using startup_check_disables_exactly [of "[''PLIVO_AUTH_ID'' \<mapsto> ''MAXXXXXXXXXXXXXXXXXX'',
                              ''PLIVO_AUTH_TOKEN'' \<mapsto> ''secret'']"]
  by simp

text \<open>
  C10, as stated, fails: with both credentials set and \<open>PLIVO_FROM_NUMBER\<close> set to the
  empty string, \<open>os.getenv\<close> returns that empty string instead of the default, \<open>all\<close>
  is false and the client is \<open>None\<close>.
\<close>

theorem startup_check_counterexample:
  "plivo_client (load_config [''PLIVO_AUTH_ID'' \<mapsto> ''MAXXXXXXXXXXXXXXXXXX'',
                              ''PLIVO_AUTH_TOKEN'' \<mapsto> ''secret'',
                              ''PLIVO_FROM_NUMBER'' \<mapsto> '''']) = None \<and>
   [''PLIVO_AUTH_ID'' \<mapsto> ''MAXXXXXXXXXXXXXXXXXX'', ''PLIVO_AUTH_TOKEN'' \<mapsto> ''secret'',
    ''PLIVO_FROM_NUMBER'' \<mapsto> ''''] ''PLIVO_AUTH_ID'' \<noteq> None \<and>
   [''PLIVO_AUTH_ID'' \<mapsto> ''MAXXXXXXXXXXXXXXXXXX'', ''PLIVO_AUTH_TOKEN'' \<mapsto> ''secret'',
    ''PLIVO_FROM_NUMBER'' \<mapsto> ''''] ''PLIVO_AUTH_TOKEN'' \<noteq> None"
  by (simp add: plivo_client_load_config)

section \<open>Properties of the stream handler and the bridge\<close>

lemma run_bot_unfold:
  "run_bot w sid t =
     (case setup_raises w of
        Some e \<Rightarrow> ([Log INFO ''Initializing bot with stream_sid: {}'' [AVal sid]], Inl e)
      | None \<Rightarrow>
         (case run_raises w (build_task (bot_environ w) (SYSTEM_PROMPT w) sid t) of
            None \<Rightarrow>
              ([Log INFO ''Initializing bot with stream_sid: {}'' [AVal sid],
                Log DEBUG ''Pipeline and services initialized successfully.'' [],
                RunnerRun (build_task (bot_environ w) (SYSTEM_PROMPT w) sid t),
                Log INFO ''Pipeline runner executed successfully.'' []], Inr ())
          | Some e \<Rightarrow>
              ([Log INFO ''Initializing bot with stream_sid: {}'' [AVal sid],
                Log DEBUG ''Pipeline and services initialized successfully.'' [],
                RunnerRun (build_task (bot_environ w) (SYSTEM_PROMPT w) sid t),
                Log ERROR ''Error during pipeline execution: {}'' [AExn e]], Inr ())))"
  by (simp add: run_bot_def comp_defs split: option.splits)

lemma websocket_endpoint_accepted:
  "accept_raises w = None \<Longrightarrow>
   websocket_endpoint w =
     (case stream_try_block w of
        (t, Inl e) \<Rightarrow>
          (Log INFO ''WebSocket endpoint accessed.'' [] # WsAccept # t @
             [Log ERROR ''Error in WebSocket communication: {}'' [AStr (str_exn e)],
              Log INFO ''WebSocket connection closed.'' []], Inr ())
      | (t, Inr u) \<Rightarrow>
          (Log INFO ''WebSocket endpoint accessed.'' [] # WsAccept # t @
             [Log INFO ''WebSocket connection closed.'' []], Inr ()))"
  by (cases "stream_try_block w") (simp add: websocket_endpoint_def comp_defs split: sum.splits)

lemma websocket_endpoint_refused:
  "accept_raises w = Some e \<Longrightarrow>
   websocket_endpoint w = ([Log INFO ''WebSocket endpoint accessed.'' [], WsAccept], Inl e)"
  by (simp add: websocket_endpoint_def comp_defs)

text \<open>The block of the \<open>try\<close>, case by case.\<close>

lemma try_block_receive_raises:
  "received w = Inl e \<Longrightarrow> stream_try_block w = ([WsReceive], Inl e)"
  by (simp add: stream_try_block_def comp_defs)

lemma try_block_no_text:
  "received w = Inr message \<Longrightarrow> dict_get message ''text'' = PNone \<Longrightarrow>
   stream_try_block w = ([WsReceive, Log WARNING ''No text received from WebSocket.'' []], Inr ())"
  by (simp add: stream_try_block_def comp_defs)

lemma try_block_not_json:
  "received w = Inr message \<Longrightarrow> dict_get message ''text'' \<noteq> PNone \<Longrightarrow>
   loads w (dict_get message ''text'') = Inl e \<Longrightarrow>
   stream_try_block w = ([WsReceive], Inl e)"
  by (simp add: stream_try_block_def comp_defs)

lemma try_block_no_event:
  "received w = Inr message \<Longrightarrow> dict_get message ''text'' \<noteq> PNone \<Longrightarrow>
   loads w (dict_get message ''text'') = Inr data \<Longrightarrow> py_getitem data ''event'' = Inl e \<Longrightarrow>
   stream_try_block w = ([WsReceive], Inl e)"
  by (simp add: stream_try_block_def comp_defs)

lemma try_block_other_event:
  "received w = Inr message \<Longrightarrow> dict_get message ''text'' \<noteq> PNone \<Longrightarrow>
   loads w (dict_get message ''text'') = Inr data \<Longrightarrow> py_getitem data ''event'' = Inr v \<Longrightarrow>
   v \<noteq> PStr ''start'' \<Longrightarrow>
   stream_try_block w = ([WsReceive], Inr ())"
  by (simp add: stream_try_block_def comp_defs)

lemma try_block_no_start:
  "received w = Inr message \<Longrightarrow> dict_get message ''text'' \<noteq> PNone \<Longrightarrow>
   loads w (dict_get message ''text'') = Inr data \<Longrightarrow>
   py_getitem data ''event'' = Inr (PStr ''start'') \<Longrightarrow>
   py_getitem data ''start'' = Inl e \<Longrightarrow>
   stream_try_block w = ([WsReceive], Inl e)"
  by (simp add: stream_try_block_def comp_defs)

lemma try_block_no_stream_id:
  "received w = Inr message \<Longrightarrow> dict_get message ''text'' \<noteq> PNone \<Longrightarrow>
   loads w (dict_get message ''text'') = Inr data \<Longrightarrow>
   py_getitem data ''event'' = Inr (PStr ''start'') \<Longrightarrow>
   py_getitem data ''start'' = Inr start \<Longrightarrow> py_getitem start ''streamId'' = Inl e \<Longrightarrow>
   stream_try_block w = ([WsReceive], Inl e)"
  by (simp add: stream_try_block_def comp_defs)

lemma try_block_start:
  "received w = Inr message \<Longrightarrow> dict_get message ''text'' \<noteq> PNone \<Longrightarrow>
   loads w (dict_get message ''text'') = Inr data \<Longrightarrow>
   py_getitem data ''event'' = Inr (PStr ''start'') \<Longrightarrow>
   py_getitem data ''start'' = Inr start \<Longrightarrow> py_getitem start ''streamId'' = Inr sid \<Longrightarrow>
   stream_try_block w =
     (WsReceive # Log INFO ''WebSocket connection accepted. Stream ID: {}'' [AVal sid] #
      RunBot sid True # fst (run_bot (bot w) sid True), snd (run_bot (bot w) sid True))"
  by (cases "run_bot (bot w) sid True") (simp add: stream_try_block_def comp_defs split: sum.splits)

lemma bridge_calls_append: "bridge_calls (xs @ ys) = bridge_calls xs @ bridge_calls ys"
  by (induction xs rule: bridge_calls.induct) simp_all

lemma sent_messages_append: "sent_messages (xs @ ys) = sent_messages xs @ sent_messages ys"
  by (induction xs rule: sent_messages.induct) simp_all

lemma run_bot_quiet:
  "bridge_calls (fst (run_bot b sid t)) = [] \<and> sent_messages (fst (run_bot b sid t)) = [] \<and>
   WsClose \<notin> set (fst (run_bot b sid t))"
  by (simp add: run_bot_unfold split: option.splits)


lemma try_block_shape:
  "(bridge_calls (fst (stream_try_block w)) = [] \<and> set (fst (stream_try_block w)) \<subseteq>
      {WsReceive, Log WARNING ''No text received from WebSocket.'' []}) \<or>
   (\<exists>sid. stream_try_block w =
      (WsReceive # Log INFO ''WebSocket connection accepted. Stream ID: {}'' [AVal sid] #
       RunBot sid True # fst (run_bot (bot w) sid True), snd (run_bot (bot w) sid True)))"
proof (cases "received w")
  case (Inl e)
  then show ?thesis by (simp add: try_block_receive_raises)
next
  case (Inr message)
  note msg = this
  show ?thesis
  proof (cases "dict_get message ''text'' = PNone")
    case True
    with msg show ?thesis by (simp add: try_block_no_text)
  next
    case False
    note text_given = this
    show ?thesis
    proof (cases "loads w (dict_get message ''text'')")
      case (Inl e)
      with msg text_given show ?thesis by (simp add: try_block_not_json)
    next
      case (Inr data)
      note data = this
      show ?thesis
      proof (cases "py_getitem data ''event''")
        case (Inl e)
        with msg text_given data show ?thesis by (simp add: try_block_no_event)
      next
        case (Inr v)
        note ev = this
        show ?thesis
        proof (cases "v = PStr ''start''")
          case False
          with msg text_given data ev show ?thesis by (simp add: try_block_other_event)
        next
          case True
          note start = this
          show ?thesis
          proof (cases "py_getitem data ''start''")
            case (Inl e)
            with msg text_given data ev start show ?thesis by (simp add: try_block_no_start)
          next
            case (Inr st)
            note st = this
            show ?thesis
            proof (cases "py_getitem st ''streamId''")
              case (Inl e)
              with msg text_given data ev start st show ?thesis
                by (simp add: try_block_no_stream_id)
            next
              case (Inr sid)
              with msg text_given data ev start st show ?thesis
                by (simp add: try_block_start)
            qed
          qed
        qed
      qed
    qed
  qed
qed

lemma run_bot_exits:
  "(setup_raises b = None \<longrightarrow> snd (run_bot b sid t) = Inr ()) \<and>
   (\<forall>e. setup_raises b = None \<and>
        run_raises b (build_task (bot_environ b) (SYSTEM_PROMPT b) sid t) = Some e \<longrightarrow>
        Log ERROR ''Error during pipeline execution: {}'' [AExn e] \<in> set (fst (run_bot b sid t))) \<and>
   (\<forall>e. setup_raises b = Some e \<longrightarrow> snd (run_bot b sid t) = Inl e) \<and>
   WsClose \<notin> set (fst (run_bot b sid t))"
  by (simp add: run_bot_unfold split: option.splits)


lemma handler_no_close:
  assumes "accept_raises w = None"
  shows "WsClose \<notin> set (fst (websocket_endpoint w))"
proof -
  have "WsClose \<notin> set (fst (stream_try_block w))"
    using try_block_shape [of w] run_bot_exits by (auto simp: subset_iff)
  with assms show ?thesis
    by (cases "stream_try_block w") (auto simp: websocket_endpoint_accepted split: sum.splits)
qed



text \<open>
  C1. When the connection is accepted and the first message has a text that decodes to a
  value whose \<open>event\<close> is \<open>start\<close>, the handler calls \<open>run_bot\<close> once, and the stream
  identifier it passes is the value at \<open>start.streamId\<close> of the decoded message, as it
  is; when that path is absent, \<open>run_bot\<close> is not called.
\<close>

theorem stream_id_passed_unchanged:
  assumes "accept_raises w = None"
    and "received w = Inr message"
    and "dict_get message ''text'' \<noteq> PNone"
    and "loads w (dict_get message ''text'') = Inr data"
    and "py_getitem data ''event'' = Inr (PStr ''start'')"
  shows "bridge_calls (fst (websocket_endpoint w)) =
           (case py_getitem data ''start'' of
              Inl e \<Rightarrow> []
            | Inr start \<Rightarrow>
                (case py_getitem start ''streamId'' of
                   Inl e \<Rightarrow> []
                 | Inr stream_id \<Rightarrow> [(stream_id, True)]))"
proof (cases "py_getitem data ''start''")
  case (Inl e)
  with assms show ?thesis
    by (simp add: websocket_endpoint_accepted try_block_no_start)
next
  case (Inr start)
  show ?thesis
  proof (cases "py_getitem start ''streamId''")
    case (Inl e)
    with assms Inr show ?thesis
      by (simp add: websocket_endpoint_accepted try_block_no_stream_id)
  next
    case sid: (Inr stream_id)
    with assms Inr show ?thesis
      by (simp add: websocket_endpoint_accepted try_block_start bridge_calls_append run_bot_quiet
            split: sum.splits)
  qed
qed


theorem stream_id_passed_unchanged_witness:
  "bridge_calls (fst (websocket_endpoint
      \<lparr>accept_raises = None,
       received = Inr [(''type'', PStr ''websocket.receive''), (''text'', PStr ''{...}'')],
       loads = (\<lambda>v. Inr (PDict [(''event'', PStr ''start''),
                                 (''start'', PDict [(''streamId'', PStr ''a1b2-c3'')])])),
       bot = \<lparr>bot_environ = Map.empty, SYSTEM_PROMPT = None, setup_raises = None,
              run_raises = (\<lambda>task. None)\<rparr>\<rparr>))
   = [(PStr ''a1b2-c3'', True)]"
  using stream_id_passed_unchanged [of
      "\<lparr>accept_raises = None,
       received = Inr [(''type'', PStr ''websocket.receive''), (''text'', PStr ''{...}'')],
       loads = (\<lambda>v. Inr (PDict [(''event'', PStr ''start''),
                                 (''start'', PDict [(''streamId'', PStr ''a1b2-c3'')])])),
       bot = \<lparr>bot_environ = Map.empty, SYSTEM_PROMPT = None, setup_raises = None,
              run_raises = (\<lambda>task. None)\<rparr>\<rparr>"
      "[(''type'', PStr ''websocket.receive''), (''text'', PStr ''{...}'')]"
      "PDict [(''event'', PStr ''start''), (''start'', PDict [(''streamId'', PStr ''a1b2-c3'')])]"]
  by (simp add: dict_get_def)







section \<open>Properties of the pipeline assembly\<close>

lemma runner_tasks_run_bot:
  "runner_tasks (fst (run_bot w stream_sid testing)) =
     (case setup_raises w of
        None \<Rightarrow> [build_task (bot_environ w) (SYSTEM_PROMPT w) stream_sid testing]
      | Some e \<Rightarrow> [])"
  by (simp add: run_bot_unfold split: option.splits)

text \<open>
  C8. The task \<open>run_bot\<close> gives to the runner, on every call whose setup raises nothing,
  is built over the fixed chain transport input, speech-to-text, user context aggregator,
  LLM, text-to-speech, transport output, audio buffer, assistant context aggregator, with
  input and output sample rates of 16000, interruptions allowed, metrics enabled, and the
  voice-activity detector enabled on the transport.
\<close>

theorem run_bot_pipeline_fixed:
  "runner_tasks (fst (run_bot w stream_sid testing)) =
     (case setup_raises w of
        None \<Rightarrow> [build_task (bot_environ w) (SYSTEM_PROMPT w) stream_sid testing]
      | Some e \<Rightarrow> []) \<and>
   pipeline (build_task env prompt stream_sid testing) =
     [TransportInput (websocket_params stream_sid),
      STT \<lparr>stt_api_key = getenv env ''DEEPGRAM_API_KEY'', audio_passthrough = True\<rparr>,
      ContextAggregatorUser [(''system'', system_prompt prompt)],
      LLM \<lparr>llm_api_key = getenv env ''OPENAI_API_KEY'', model = ''gpt-4.1''\<rparr>,
      TTS \<lparr>tts_api_key = getenv env ''ELEVENLABS_API_KEY'',
           voice_id = getenv env ''ELEVENLABS_VOICE_ID'', push_silence_after_stop = True\<rparr>,
      TransportOutput (websocket_params stream_sid),
      AudioBufferProcessor (\<not> testing),
      ContextAggregatorAssistant [(''system'', system_prompt prompt)]] \<and>
   audio_in_sample_rate (params (build_task env prompt stream_sid testing)) = 16000 \<and>
   audio_out_sample_rate (params (build_task env prompt stream_sid testing)) = 16000 \<and>
   allow_interruptions (params (build_task env prompt stream_sid testing)) = True \<and>
   enable_metrics (params (build_task env prompt stream_sid testing)) = True \<and>
   vad_enabled (websocket_params stream_sid) = True \<and>
   vad_analyzer (websocket_params stream_sid) = SileroVADAnalyzer"
  by (simp add: runner_tasks_run_bot build_task_def build_pipeline_def Let_def websocket_params_def)

section \<open>Properties of the audio archival\<close>

lemma split_slash_no_slash: "CHR ''/'' \<notin> set s \<Longrightarrow> split_slash s = [s]"
  by (induction s) auto

lemma dec_digits: "set (dec n) \<subseteq> set ''0123456789''"
proof (induction n rule: dec.induct)
  case (1 n)
  show ?case
  proof (cases "n < 10")
    case True
    then have "''0123456789'' ! n \<in> set ''0123456789''"
      by (intro nth_mem) simp
    with True show ?thesis by (subst dec.simps) simp
  next
    case False
    have "n mod 10 < 10" by simp
    then have "''0123456789'' ! (n mod 10) \<in> set ''0123456789''"
      by (intro nth_mem) simp
    with False "1.IH" show ?thesis by (subst dec.simps) simp
  qed
qed

lemma dec_no_slash: "CHR ''/'' \<notin> set (dec n)"
  using dec_digits [of n] by auto

lemma pad2_no_slash: "CHR ''/'' \<notin> set (pad2 n)"
  by (auto simp: pad2_def dec_no_slash)

lemma strftime_no_slash: "CHR ''/'' \<notin> set (strftime t)"
  by (simp add: strftime_def dec_no_slash pad2_no_slash)

lemma recording_name_no_slash:
  "CHR ''/'' \<notin> set server_name \<Longrightarrow> CHR ''/'' \<notin> set (recording_name server_name now)"
  by (simp add: recording_name_def strftime_no_slash)

lemma joinpath_recording:
  assumes "CHR ''/'' \<notin> set server_name"
  shows "joinpath dir (recording_name server_name now) = dir @ [recording_name server_name now]"
proof -
  have ns: "CHR ''/'' \<notin> set (recording_name server_name now)"
    using assms by (rule recording_name_no_slash)
  have len: "length (recording_name server_name now) \<ge> 2"
    by (simp add: recording_name_def)
  then have ne: "recording_name server_name now \<noteq> []" "recording_name server_name now \<noteq> ''.''"
    by auto
  from ne(1) obtain c cs where cs: "recording_name server_name now = c # cs"
    by (cases "recording_name server_name now") auto
  with ns have "c \<noteq> CHR ''/''" by auto
  with cs ns ne show ?thesis
    by (simp add: joinpath_def path_parts_def split_slash_no_slash)
qed

lemma wave_write_accepts:
  assumes "1 \<le> channels" "channels \<le> 32767" "0 < rate" "2 * channels * rate \<le> 4294967295"
    and "36 + int (length data) \<le> 4294967295"
  shows "wave_write 2 channels rate data =
           Inr \<lparr>sampwidth = 2, nchannels = channels, framerate = rate, frames = data\<rparr>"
proof -
  have dl: "int (length data) div (channels * 2) * channels * 2 \<le> int (length data)"
  proof -
    have pos: "0 < channels * 2" using assms(1) by simp
    have "int (length data) div (channels * 2) * (channels * 2) + int (length data) mod (channels * 2)
            = int (length data)"
      by (rule div_mult_mod_eq)
    moreover have "0 \<le> int (length data) mod (channels * 2)"
      using pos by (rule pos_mod_sign)
    ultimately have "int (length data) div (channels * 2) * (channels * 2) \<le> int (length data)"
      by linarith
    then show ?thesis by (simp add: mult.assoc)
  qed
  have r: "rate \<le> 4294967295"
  proof -
    have "rate \<le> 2 * channels * rate" using assms(1,3) by (simp add: mult_le_cancel_right1)
    with assms(4) show ?thesis by linarith
  qed
  have m: "channels * rate * 2 = 2 * channels * rate" by simp
  show ?thesis
    using assms dl r unfolding wave_write_def Let_def m
    by (auto simp: not_less)
qed


lemma parent_snoc: "parent (p @ [x]) = p"
  by (simp add: parent_def)

lemma parent_snoc2: "parent (p @ [x, y]) = p @ [x]"
  by (simp add: parent_def butlast_append)

lemma save_audio_empty:
  "save_audio current_dir now fs server_name [] sample_rate num_channels =
     (fs, [Log INFO ''No audio data to save'' []], Inr ())"
  by (simp add: save_audio_def)

lemma mkdir_recordings:
  assumes "fs (parent current_dir) = Some Dir"
    and "fs (parent current_dir @ [''recordings'']) = None \<or>
         fs (parent current_dir @ [''recordings'']) = Some Dir"
  shows "mkdir_exist_ok fs (parent current_dir @ [''recordings'']) =
           Inr (fs(parent current_dir @ [''recordings''] \<mapsto> Dir))"
  using assms by (auto simp: mkdir_exist_ok_def parent_snoc fun_upd_idem)

lemma save_audio_written:
  assumes "audio \<noteq> []"
    and "CHR ''/'' \<notin> set server_name"
    and "fs (parent current_dir) = Some Dir"
    and "fs (parent current_dir @ [''recordings'']) = None \<or>
         fs (parent current_dir @ [''recordings'']) = Some Dir"
    and "fs (parent current_dir @ [''recordings'', recording_name server_name now]) \<noteq> Some Dir"
    and "1 \<le> num_channels" "num_channels \<le> 32767" "0 < sample_rate"
    and "2 * num_channels * sample_rate \<le> 4294967295"
    and "36 + int (length audio) \<le> 4294967295"
  shows "save_audio current_dir now fs server_name audio sample_rate num_channels =
           (fs(parent current_dir @ [''recordings''] \<mapsto> Dir,
               parent current_dir @ [''recordings'', recording_name server_name now] \<mapsto>
                 WavFile \<lparr>sampwidth = 2, nchannels = num_channels, framerate = sample_rate,
                          frames = audio\<rparr>),
            [Log INFO ''Merged audio saved to {}''
               [AStr (str_path (parent current_dir @ [''recordings'', recording_name server_name now]))]],
            Inr ())"
proof -
  let ?rec = "parent current_dir @ [''recordings'']"
  let ?file = "?rec @ [recording_name server_name now]"
  have mk: "mkdir_exist_ok fs ?rec = Inr (fs(?rec \<mapsto> Dir))"
    using assms(3,4) by (rule mkdir_recordings)
  have jp: "joinpath ?rec (recording_name server_name now) = ?file"
    using assms(2) by (rule joinpath_recording)
  have ww: "wave_write 2 num_channels sample_rate audio =
      Inr \<lparr>sampwidth = 2, nchannels = num_channels, framerate = sample_rate, frames = audio\<rparr>"
    using assms(6-10) by (rule wave_write_accepts)
  have neq: "?file \<noteq> ?rec" by simp
  have wr: "write_wb (fs(?rec \<mapsto> Dir)) ?file
      \<lparr>sampwidth = 2, nchannels = num_channels, framerate = sample_rate, frames = audio\<rparr>
      = Inr (fs(?rec \<mapsto> Dir, ?file \<mapsto>
          WavFile \<lparr>sampwidth = 2, nchannels = num_channels, framerate = sample_rate, frames = audio\<rparr>))"
    using assms(5) neq by (simp add: write_wb_def parent_snoc2)
  show ?thesis
    using assms(1) mk jp ww wr by (simp add: save_audio_def Let_def)
qed

lemma length_dec_1: "n < 10 \<Longrightarrow> length (dec n) = 1"
  by (subst dec.simps) simp

lemma length_dec_2: "10 \<le> n \<Longrightarrow> n < 100 \<Longrightarrow> length (dec n) = 2"
  by (subst dec.simps) (simp add: length_dec_1)

lemma length_dec_3: "100 \<le> n \<Longrightarrow> n < 1000 \<Longrightarrow> length (dec n) = 3"
  by (subst dec.simps) (simp add: length_dec_2)

lemma length_dec_4: "1000 \<le> n \<Longrightarrow> n < 10000 \<Longrightarrow> length (dec n) = 4"
  by (subst dec.simps) (simp add: length_dec_3)

lemma length_pad2: "n < 100 \<Longrightarrow> length (pad2 n) = 2"
  by (cases "n < 10") (simp_all add: pad2_def length_dec_1 length_dec_2)

lemma length_strftime:
  assumes "1000 \<le> year t" "year t < 10000" "month t < 100" "day t < 100"
    and "hour t < 100" "minute t < 100" "second t < 100"
  shows "length (strftime t) = 15"
  using assms by (simp add: strftime_def length_dec_4 length_pad2)

lemma wav_files_written:
  assumes "fs r = None \<or> fs r = Some Dir"
  shows "wav_files (fs(r \<mapsto> Dir, f \<mapsto> WavFile w)) = insert f (wav_files fs)"
  using assms by (auto simp: wav_files_def)

lemma recording_name_seconds:
  "recording_name server_name (now\<lparr>microsecond := us\<rparr>) = recording_name server_name now"
  by (simp add: recording_name_def strftime_def)

lemma strftime_example:
  "strftime \<lparr>year = 2025, month = 10, day = 12, hour = 3, minute = 4, second = 5, microsecond = 999\<rparr> = ''20251012_030405''"
  by code_simp

lemma mkdir_exist_ok_done:
  assumes "mkdir_exist_ok fs p = Inr fs1"
  shows "fs1 = fs(p \<mapsto> Dir) \<and> (fs p = None \<or> fs p = Some Dir)"
  using assms
  by (auto simp: mkdir_exist_ok_def fun_upd_idem split: option.splits node.splits if_splits)

lemma wave_write_done:
  assumes "wave_write width channels rate data = Inr content"
  shows "content = \<lparr>sampwidth = width, nchannels = channels, framerate = rate, frames = data\<rparr>"
  using assms unfolding wave_write_def Let_def
  by (simp split: if_splits)

lemma write_wb_done:
  assumes "write_wb fs p content = Inr fs2"
  shows "fs2 = fs(p \<mapsto> WavFile content)"
  using assms by (auto simp: write_wb_def split: if_splits)

lemma wav_files_mkdir:
  "fs p = None \<or> fs p = Some Dir \<Longrightarrow> wav_files (fs(p \<mapsto> Dir)) = wav_files fs"
  by (auto simp: wav_files_def)

lemma wav_files_write: "wav_files (fs(p \<mapsto> WavFile c)) = insert p (wav_files fs)"
  by (auto simp: wav_files_def)

lemma save_audio_returned:
  assumes "audio \<noteq> []"
    and "snd (snd (save_audio current_dir now fs server_name audio sample_rate num_channels)) = Inr ()"
  shows "fst (save_audio current_dir now fs server_name audio sample_rate num_channels) =
           fs(parent current_dir @ [''recordings''] \<mapsto> Dir,
              joinpath (parent current_dir @ [''recordings'']) (recording_name server_name now) \<mapsto>
                WavFile \<lparr>sampwidth = 2, nchannels = num_channels, framerate = sample_rate, frames = audio\<rparr>) \<and>
         wav_files (fst (save_audio current_dir now fs server_name audio sample_rate num_channels)) =
           insert (joinpath (parent current_dir @ [''recordings'']) (recording_name server_name now)) (wav_files fs)"
proof (cases "mkdir_exist_ok fs (parent current_dir @ [''recordings''])")
  case (Inl e)
  with assms show ?thesis by (simp add: save_audio_def)
next
  case (Inr fs1)
  note mk = this
  from mkdir_exist_ok_done [OF mk]
  have fs1: "fs1 = fs(parent current_dir @ [''recordings''] \<mapsto> Dir)"
    and old: "fs (parent current_dir @ [''recordings'']) = None \<or> fs (parent current_dir @ [''recordings'']) = Some Dir"
    by simp_all
  show ?thesis
  proof (cases "wave_write 2 num_channels sample_rate audio")
    case (Inl e)
    with assms mk show ?thesis by (simp add: save_audio_def)
  next
    case (Inr content)
    note ww = this
    from wave_write_done [OF ww]
    have content: "content = \<lparr>sampwidth = 2, nchannels = num_channels, framerate = sample_rate,
        frames = audio\<rparr>" .
    show ?thesis
    proof (cases "write_wb fs1 (joinpath (parent current_dir @ [''recordings'']) (recording_name server_name now)) content")
      case (Inl e)
      with assms mk ww show ?thesis by (simp add: save_audio_def Let_def)
    next
      case (Inr fs2)
      note wr = this
      from write_wb_done [OF wr] have fs2: "fs2 = fs1(joinpath (parent current_dir @ [''recordings'']) (recording_name server_name now) \<mapsto> WavFile content)" .
      from assms(1) mk ww wr have res: "fst (save_audio current_dir now fs server_name audio sample_rate num_channels) = fs2"
        by (simp add: save_audio_def Let_def)
      from old have "wav_files (fs(parent current_dir @ [''recordings''] \<mapsto> Dir)) = wav_files fs"
        by (rule wav_files_mkdir)
      with res fs2 fs1 content show ?thesis
        by (simp add: wav_files_write)
    qed
  qed
qed

lemma save_audio_raised:
  assumes "snd (snd (save_audio current_dir now fs server_name audio sample_rate num_channels)) = Inl e"
  shows "wav_files (fst (save_audio current_dir now fs server_name audio sample_rate num_channels)) = wav_files fs"
proof (cases "audio = []")
  case True
  with assms show ?thesis by (simp add: save_audio_def)
next
  case False
  note audio = this
  show ?thesis
  proof (cases "mkdir_exist_ok fs (parent current_dir @ [''recordings''])")
    case (Inl e')
    with audio show ?thesis by (simp add: save_audio_def)
  next
    case (Inr fs1)
    note mk = this
    from mkdir_exist_ok_done [OF mk]
    have fs1: "fs1 = fs(parent current_dir @ [''recordings''] \<mapsto> Dir)"
      and old: "fs (parent current_dir @ [''recordings'']) = None \<or> fs (parent current_dir @ [''recordings'']) = Some Dir"
      by simp_all
    from old have keep: "wav_files fs1 = wav_files fs"
      unfolding fs1 by (rule wav_files_mkdir)
    show ?thesis
    proof (cases "wave_write 2 num_channels sample_rate audio")
      case (Inl e')
      with audio mk keep show ?thesis by (simp add: save_audio_def)
    next
      case (Inr content)
      note ww = this
      show ?thesis
      proof (cases "write_wb fs1 (joinpath (parent current_dir @ [''recordings'']) (recording_name server_name now)) content")
        case (Inl e')
        with audio mk ww keep show ?thesis by (simp add: save_audio_def Let_def)
      next
        case (Inr fs2)
        with audio mk ww assms show ?thesis by (simp add: save_audio_def Let_def)
      qed
    qed
  qed
qed

text \<open>
  C5, as amended. With zero-length audio \<open>save_audio\<close> creates no file and logs that
  there is nothing to save. Every call with N > 0 bytes of PCM, sample rate R and channel
  count C that completes has written exactly one WavFile \<lparr>sampwidth = 2, nchannels = num_channels, framerate = sample_rate, frames = audio\<rparr> file, with sample width 2, channel
  count C, frame rate R and the audio as its frames, under the \<open>recordings\<close> directory
  (created if absent) and named \<open>{server_name}_recording_{YYYYMMDD_HHMMSS}.wav\<close>; a call
  that raises leaves the WavFile \<lparr>sampwidth = 2, nchannels = num_channels, framerate = sample_rate, frames = audio\<rparr> files as they were. The call completes whenever the WavFile \<lparr>sampwidth = 2, nchannels = num_channels, framerate = sample_rate, frames = audio\<rparr>
  header can hold the parameters and the directory can be used. The timestamp has 15
  characters for a four-digit year and a resolution of one second, and the file is
  created only when no file of that name exists: a call under the same server name in
  the same second replaces the earlier recording and adds no file.
\<close>

theorem save_audio_one_wav:
  "save_audio current_dir now fs server_name [] sample_rate num_channels =
     (fs, [Log INFO ''No audio data to save'' []], Inr ()) \<and>
   (audio \<noteq> [] \<and> snd (snd (save_audio current_dir now fs server_name audio sample_rate num_channels)) = Inr () \<longrightarrow>
      fst (save_audio current_dir now fs server_name audio sample_rate num_channels) =
        fs(parent current_dir @ [''recordings''] \<mapsto> Dir,
           joinpath (parent current_dir @ [''recordings'']) (recording_name server_name now) \<mapsto>
             WavFile \<lparr>sampwidth = 2, nchannels = num_channels, framerate = sample_rate, frames = audio\<rparr>) \<and>
      wav_files (fst (save_audio current_dir now fs server_name audio sample_rate num_channels)) =
        insert (joinpath (parent current_dir @ [''recordings'']) (recording_name server_name now)) (wav_files fs)) \<and>
   (\<forall>e. snd (snd (save_audio current_dir now fs server_name audio sample_rate num_channels)) = Inl e \<longrightarrow>
      wav_files (fst (save_audio current_dir now fs server_name audio sample_rate num_channels)) = wav_files fs) \<and>
   (CHR ''/'' \<notin> set server_name \<longrightarrow>
      joinpath (parent current_dir @ [''recordings'']) (recording_name server_name now) =
        parent current_dir @ [''recordings'', recording_name server_name now]) \<and>
   (audio \<noteq> [] \<and> CHR ''/'' \<notin> set server_name \<and>
    fs (parent current_dir) = Some Dir \<and>
    (fs (parent current_dir @ [''recordings'']) = None \<or> fs (parent current_dir @ [''recordings'']) = Some Dir) \<and>
    fs (parent current_dir @ [''recordings'', recording_name server_name now]) \<noteq> Some Dir \<and>
    1 \<le> num_channels \<and> num_channels \<le> 32767 \<and> 0 < sample_rate \<and>
    2 * num_channels * sample_rate \<le> 4294967295 \<and>
    36 + int (length audio) \<le> 4294967295 \<longrightarrow>
      snd (snd (save_audio current_dir now fs server_name audio sample_rate num_channels)) = Inr ()) \<and>
   recording_name server_name now =
     server_name @ ''_recording_'' @ dec (year now) @ pad2 (month now) @ pad2 (day now) @ ''_'' @
       pad2 (hour now) @ pad2 (minute now) @ pad2 (second now) @ ''.wav'' \<and>
   (1000 \<le> year now \<and> year now < 10000 \<and> month now < 100 \<and> day now < 100 \<and>
    hour now < 100 \<and> minute now < 100 \<and> second now < 100 \<longrightarrow>
    length (strftime now) = 15) \<and>
   recording_name server_name (now\<lparr>microsecond := us\<rparr>) = recording_name server_name now"
proof -
  have fmt: "recording_name server_name now =
     server_name @ ''_recording_'' @ dec (year now) @ pad2 (month now) @ pad2 (day now) @ ''_'' @
       pad2 (hour now) @ pad2 (minute now) @ pad2 (second now) @ ''.wav''"
    by (simp add: recording_name_def strftime_def)
  have jp: "CHR ''/'' \<notin> set server_name \<longrightarrow>
      joinpath (parent current_dir @ [''recordings'']) (recording_name server_name now) =
        parent current_dir @ [''recordings'', recording_name server_name now]"
    by (simp add: joinpath_recording)
  have ok: "audio \<noteq> [] \<and> CHR ''/'' \<notin> set server_name \<and>
    fs (parent current_dir) = Some Dir \<and>
    (fs (parent current_dir @ [''recordings'']) = None \<or> fs (parent current_dir @ [''recordings'']) = Some Dir) \<and>
    fs (parent current_dir @ [''recordings'', recording_name server_name now]) \<noteq> Some Dir \<and>
    1 \<le> num_channels \<and> num_channels \<le> 32767 \<and> 0 < sample_rate \<and>
    2 * num_channels * sample_rate \<le> 4294967295 \<and>
    36 + int (length audio) \<le> 4294967295 \<longrightarrow>
      snd (snd (save_audio current_dir now fs server_name audio sample_rate num_channels)) = Inr ()"
    using save_audio_written [of audio server_name fs current_dir now num_channels sample_rate]
    by simp
  have ret: "audio \<noteq> [] \<and> snd (snd (save_audio current_dir now fs server_name audio sample_rate num_channels)) = Inr () \<longrightarrow>
      fst (save_audio current_dir now fs server_name audio sample_rate num_channels) =
        fs(parent current_dir @ [''recordings''] \<mapsto> Dir,
           joinpath (parent current_dir @ [''recordings'']) (recording_name server_name now) \<mapsto>
             WavFile \<lparr>sampwidth = 2, nchannels = num_channels, framerate = sample_rate, frames = audio\<rparr>) \<and>
      wav_files (fst (save_audio current_dir now fs server_name audio sample_rate num_channels)) =
        insert (joinpath (parent current_dir @ [''recordings'']) (recording_name server_name now)) (wav_files fs)"
    using save_audio_returned [of audio current_dir now fs server_name sample_rate num_channels]
    by blast
  have rai: "\<forall>e. snd (snd (save_audio current_dir now fs server_name audio sample_rate num_channels)) = Inl e \<longrightarrow>
      wav_files (fst (save_audio current_dir now fs server_name audio sample_rate num_channels)) = wav_files fs"
    using save_audio_raised [of current_dir now fs server_name audio sample_rate num_channels]
    by blast
  have len: "1000 \<le> year now \<and> year now < 10000 \<and> month now < 100 \<and> day now < 100 \<and>
    hour now < 100 \<and> minute now < 100 \<and> second now < 100 \<longrightarrow>
    length (strftime now) = 15"
    using length_strftime [of now] by simp
  have emp: "save_audio current_dir now fs server_name [] sample_rate num_channels =
     (fs, [Log INFO ''No audio data to save'' []], Inr ())"
    by (rule save_audio_empty)
  have sec: "recording_name server_name (now\<lparr>microsecond := us\<rparr>) = recording_name server_name now"
    by (rule recording_name_seconds)
  show ?thesis
    by (rule conjI [OF emp conjI [OF ret conjI [OF rai conjI [OF jp conjI [OF ok
          conjI [OF fmt conjI [OF len sec]]]]]]])
qed

theorem save_audio_one_wav_witness:
  "fst (save_audio [''srv'', ''backend''] \<lparr>year = 2025, month = 10, day = 12, hour = 3, minute = 4, second = 5, microsecond = 250\<rparr>
          [[''srv''] \<mapsto> Dir, [''srv'', ''backend''] \<mapsto> Dir] ''server_5000'' [0, 1, 2, 3] 16000 1) =
     [[''srv''] \<mapsto> Dir, [''srv'', ''backend''] \<mapsto> Dir]([''srv'', ''recordings''] \<mapsto> Dir,
        [''srv'', ''recordings'', ''server_5000_recording_20251012_030405.wav''] \<mapsto>
          WavFile \<lparr>sampwidth = 2, nchannels = 1, framerate = 16000, frames = [0, 1, 2, 3]\<rparr>)"
proof -
  have n: "recording_name ''server_5000'' \<lparr>year = 2025, month = 10, day = 12, hour = 3, minute = 4, second = 5, microsecond = 250\<rparr> = ''server_5000_recording_20251012_030405.wav''"
    by code_simp
  note inst = save_audio_one_wav [of "[''srv'', ''backend'']" "\<lparr>year = 2025, month = 10, day = 12, hour = 3, minute = 4, second = 5, microsecond = 250\<rparr>"
        "[[''srv''] \<mapsto> Dir, [''srv'', ''backend''] \<mapsto> Dir]" "''server_5000''" 16000 1 "[0, 1, 2, 3]"]
  note ret = inst [THEN conjunct2, THEN conjunct1]
  note jp = inst [THEN conjunct2, THEN conjunct2, THEN conjunct2, THEN conjunct1]
  note ok = inst [THEN conjunct2, THEN conjunct2, THEN conjunct2, THEN conjunct2, THEN conjunct1]
  have r: "snd (snd (save_audio [''srv'', ''backend''] \<lparr>year = 2025, month = 10, day = 12, hour = 3, minute = 4, second = 5, microsecond = 250\<rparr>
          [[''srv''] \<mapsto> Dir, [''srv'', ''backend''] \<mapsto> Dir] ''server_5000'' [0, 1, 2, 3] 16000 1)) = Inr ()"
    using ok by (simp add: n parent_def)
  have t: "joinpath (parent [''srv'', ''backend''] @ [''recordings''])
             (recording_name ''server_5000'' \<lparr>year = 2025, month = 10, day = 12, hour = 3, minute = 4, second = 5, microsecond = 250\<rparr>) =
           [''srv'', ''recordings'', ''server_5000_recording_20251012_030405.wav'']"
    using jp by (simp add: n parent_def)
  have p: "parent [''srv'', ''backend''] @ [''recordings''] = [''srv'', ''recordings'']"
    by (simp add: parent_def)
  from ret r have "fst (save_audio [''srv'', ''backend''] \<lparr>year = 2025, month = 10, day = 12, hour = 3, minute = 4, second = 5, microsecond = 250\<rparr>
          [[''srv''] \<mapsto> Dir, [''srv'', ''backend''] \<mapsto> Dir] ''server_5000'' [0, 1, 2, 3] 16000 1) =
      [[''srv''] \<mapsto> Dir, [''srv'', ''backend''] \<mapsto> Dir](parent [''srv'', ''backend''] @ [''recordings''] \<mapsto> Dir,
           joinpath (parent [''srv'', ''backend''] @ [''recordings''])
             (recording_name ''server_5000'' \<lparr>year = 2025, month = 10, day = 12, hour = 3, minute = 4, second = 5, microsecond = 250\<rparr>) \<mapsto>
             WavFile \<lparr>sampwidth = 2, nchannels = 1, framerate = 16000, frames = [0, 1, 2, 3]\<rparr>)"
    by simp
  with t p show ?thesis
    by simp
qed

text \<open>
  C5, as stated, fails: a second call under the same server name later in the same second
  gets the same file name; it creates no file, and the recording of the first call is
  replaced by its own.
\<close>

theorem save_audio_counterexample:
  "fst (save_audio [''srv'', ''backend''] \<lparr>year = 2025, month = 10, day = 12, hour = 3, minute = 4, second = 5, microsecond = 250\<rparr>
          [[''srv''] \<mapsto> Dir, [''srv'', ''backend''] \<mapsto> Dir] ''server_5000'' [0, 1, 2, 3] 16000 1) =
     [[''srv''] \<mapsto> Dir, [''srv'', ''backend''] \<mapsto> Dir]([''srv'', ''recordings''] \<mapsto> Dir,
        [''srv'', ''recordings'', ''server_5000_recording_20251012_030405.wav''] \<mapsto>
          WavFile \<lparr>sampwidth = 2, nchannels = 1, framerate = 16000, frames = [0, 1, 2, 3]\<rparr>) \<and>
   fst (save_audio [''srv'', ''backend''] \<lparr>year = 2025, month = 10, day = 12, hour = 3, minute = 4, second = 5, microsecond = 750\<rparr>
          ([[''srv''] \<mapsto> Dir, [''srv'', ''backend''] \<mapsto> Dir]([''srv'', ''recordings''] \<mapsto> Dir,
        [''srv'', ''recordings'', ''server_5000_recording_20251012_030405.wav''] \<mapsto>
          WavFile \<lparr>sampwidth = 2, nchannels = 1, framerate = 16000, frames = [0, 1, 2, 3]\<rparr>)) ''server_5000'' [4, 5, 6, 7] 16000 1) =
     [[''srv''] \<mapsto> Dir, [''srv'', ''backend''] \<mapsto> Dir]([''srv'', ''recordings''] \<mapsto> Dir,
        [''srv'', ''recordings'', ''server_5000_recording_20251012_030405.wav''] \<mapsto>
          WavFile \<lparr>sampwidth = 2, nchannels = 1, framerate = 16000, frames = [4, 5, 6, 7]\<rparr>) \<and>
   wav_files ([[''srv''] \<mapsto> Dir, [''srv'', ''backend''] \<mapsto> Dir]([''srv'', ''recordings''] \<mapsto> Dir,
        [''srv'', ''recordings'', ''server_5000_recording_20251012_030405.wav''] \<mapsto>
          WavFile \<lparr>sampwidth = 2, nchannels = 1, framerate = 16000, frames = [4, 5, 6, 7]\<rparr>)) =
   wav_files ([[''srv''] \<mapsto> Dir, [''srv'', ''backend''] \<mapsto> Dir]([''srv'', ''recordings''] \<mapsto> Dir,
        [''srv'', ''recordings'', ''server_5000_recording_20251012_030405.wav''] \<mapsto>
          WavFile \<lparr>sampwidth = 2, nchannels = 1, framerate = 16000, frames = [0, 1, 2, 3]\<rparr>))"
proof -
  have n1: "recording_name ''server_5000'' \<lparr>year = 2025, month = 10, day = 12, hour = 3, minute = 4, second = 5, microsecond = 250\<rparr> = ''server_5000_recording_20251012_030405.wav''"
    by code_simp
  have n2: "recording_name ''server_5000'' \<lparr>year = 2025, month = 10, day = 12, hour = 3, minute = 4, second = 5, microsecond = 750\<rparr> = ''server_5000_recording_20251012_030405.wav''"
    by code_simp
  have first: "fst (save_audio [''srv'', ''backend''] \<lparr>year = 2025, month = 10, day = 12, hour = 3, minute = 4, second = 5, microsecond = 250\<rparr>
          [[''srv''] \<mapsto> Dir, [''srv'', ''backend''] \<mapsto> Dir] ''server_5000'' [0, 1, 2, 3] 16000 1) =
     [[''srv''] \<mapsto> Dir, [''srv'', ''backend''] \<mapsto> Dir]([''srv'', ''recordings''] \<mapsto> Dir,
        [''srv'', ''recordings'', ''server_5000_recording_20251012_030405.wav''] \<mapsto>
          WavFile \<lparr>sampwidth = 2, nchannels = 1, framerate = 16000, frames = [0, 1, 2, 3]\<rparr>)"
    using save_audio_written [of "[0, 1, 2, 3]" "''server_5000''" "[[''srv''] \<mapsto> Dir, [''srv'', ''backend''] \<mapsto> Dir]"
        "[''srv'', ''backend'']" "\<lparr>year = 2025, month = 10, day = 12, hour = 3, minute = 4, second = 5, microsecond = 250\<rparr>" 1 16000]
    by (simp add: n1 parent_def)
  have second: "fst (save_audio [''srv'', ''backend''] \<lparr>year = 2025, month = 10, day = 12, hour = 3, minute = 4, second = 5, microsecond = 750\<rparr>
          ([[''srv''] \<mapsto> Dir, [''srv'', ''backend''] \<mapsto> Dir]([''srv'', ''recordings''] \<mapsto> Dir,
        [''srv'', ''recordings'', ''server_5000_recording_20251012_030405.wav''] \<mapsto>
          WavFile \<lparr>sampwidth = 2, nchannels = 1, framerate = 16000, frames = [0, 1, 2, 3]\<rparr>)) ''server_5000'' [4, 5, 6, 7] 16000 1) =
     [[''srv''] \<mapsto> Dir, [''srv'', ''backend''] \<mapsto> Dir]([''srv'', ''recordings''] \<mapsto> Dir,
        [''srv'', ''recordings'', ''server_5000_recording_20251012_030405.wav''] \<mapsto>
          WavFile \<lparr>sampwidth = 2, nchannels = 1, framerate = 16000, frames = [4, 5, 6, 7]\<rparr>)"
    using save_audio_written [of "[4, 5, 6, 7]" "''server_5000''" "[[''srv''] \<mapsto> Dir, [''srv'', ''backend''] \<mapsto> Dir]([''srv'', ''recordings''] \<mapsto> Dir,
        [''srv'', ''recordings'', ''server_5000_recording_20251012_030405.wav''] \<mapsto>
          WavFile \<lparr>sampwidth = 2, nchannels = 1, framerate = 16000, frames = [0, 1, 2, 3]\<rparr>)"
        "[''srv'', ''backend'']" "\<lparr>year = 2025, month = 10, day = 12, hour = 3, minute = 4, second = 5, microsecond = 750\<rparr>" 1 16000]
    by (simp add: n2 parent_def)
  have files: "wav_files ([[''srv''] \<mapsto> Dir, [''srv'', ''backend''] \<mapsto> Dir]([''srv'', ''recordings''] \<mapsto> Dir,
        [''srv'', ''recordings'', ''server_5000_recording_20251012_030405.wav''] \<mapsto>
          WavFile \<lparr>sampwidth = 2, nchannels = 1, framerate = 16000, frames = [4, 5, 6, 7]\<rparr>)) =
   wav_files ([[''srv''] \<mapsto> Dir, [''srv'', ''backend''] \<mapsto> Dir]([''srv'', ''recordings''] \<mapsto> Dir,
        [''srv'', ''recordings'', ''server_5000_recording_20251012_030405.wav''] \<mapsto>
          WavFile \<lparr>sampwidth = 2, nchannels = 1, framerate = 16000, frames = [0, 1, 2, 3]\<rparr>))"
    by (simp add: wav_files_write)
  from first second files show ?thesis by simp
qed

section \<open>Properties of the CLI caller\<close>

lemmas cli_defs = comp_defs try_except_request_def

lemma http_posts_append: "http_posts (xs @ ys) = http_posts xs @ http_posts ys"
  by (induction xs rule: http_posts.induct) simp_all

lemma make_call_unfold:
  "make_call post phone (Some base) =
     (case post (call_url base phone) of
        Inl (RequestException m r) \<Rightarrow>
          (HttpPost (call_url base phone) # Print ''Error making call: {}'' [AStr m] #
             (case r of None \<Rightarrow> [] | Some t \<Rightarrow> [Print ''Response: {}'' [AStr t]]), Inr PNone)
      | Inl e \<Rightarrow> ([HttpPost (call_url base phone)], Inl e)
      | Inr resp \<Rightarrow>
          (case raise_for_status resp of
             Inl (RequestException m r) \<Rightarrow>
               (HttpPost (call_url base phone) # Print ''Error making call: {}'' [AStr m] #
                  (case r of None \<Rightarrow> [] | Some t \<Rightarrow> [Print ''Response: {}'' [AStr t]]), Inr PNone)
           | Inl e \<Rightarrow> ([HttpPost (call_url base phone)], Inl e)
           | Inr u \<Rightarrow>
               (case json_result resp of
                  Inl (RequestException m r) \<Rightarrow>
                    (HttpPost (call_url base phone) # Print ''Error making call: {}'' [AStr m] #
                       (case r of None \<Rightarrow> [] | Some t \<Rightarrow> [Print ''Response: {}'' [AStr t]]), Inr PNone)
                | Inl e \<Rightarrow> ([HttpPost (call_url base phone)], Inl e)
                | Inr v \<Rightarrow> ([HttpPost (call_url base phone)], Inr v))))"
  by (simp add: make_call_def cli_defs split: sum.splits exn.splits option.splits)

lemma raise_for_status_cases:
  "(400 \<le> status_code r \<and> status_code r < 600 \<longrightarrow>
      (\<exists>m. raise_for_status r = Inl (RequestException m (Some (resp_text r))))) \<and>
   (\<not> (400 \<le> status_code r \<and> status_code r < 600) \<longrightarrow> raise_for_status r = Inr ())"
  by (auto simp: raise_for_status_def)

lemma make_call_posts_once:
  "http_posts (fst (make_call post phone (Some base))) = [call_url base phone]"
  by (simp add: make_call_unfold split: sum.splits exn.splits option.splits)

lemma main_posts_once:
  "http_posts (fst (main args env post)) =
     [call_url (py_or (url args) (getenv_or env ''SERVER_URL'' ''http://localhost:8765''))
        (phone_number args)]"
proof -
  let ?base = "py_or (url args) (getenv_or env ''SERVER_URL'' ''http://localhost:8765'')"
  obtain t r where mc: "make_call post (phone_number args) (Some ?base) = (t, r)"
    by (cases "make_call post (phone_number args) (Some ?base)")
  with make_call_posts_once [of post "phone_number args" ?base]
  have "http_posts t = [call_url ?base (phone_number args)]" by simp
  with mc show ?thesis
    by (auto simp: main_def Let_def http_posts_append split: sum.splits pyval.splits)
qed

lemma main_request_failed:
  assumes "make_call post (phone_number args) (Some (py_or (url args) (getenv_or env ''SERVER_URL'' ''http://localhost:8765''))) = (t, Inr PNone)"
  shows "main args env post = (t @ [Print ''Failed to initiate call.'' []], SysExit 1)"
  using assms by (simp add: main_def Let_def)


lemma main_failure:
  assumes "(\<exists>m r. post (call_url (py_or (url args) (getenv_or env ''SERVER_URL'' ''http://localhost:8765'')) (phone_number args)) = Inl (RequestException m r)) \<or>
           (\<exists>resp. post (call_url (py_or (url args) (getenv_or env ''SERVER_URL'' ''http://localhost:8765'')) (phone_number args)) = Inr resp \<and> 400 \<le> status_code resp \<and> status_code resp < 600)"
  shows "snd (main args env post) = SysExit 1 \<and>
         (\<exists>m. Print ''Error making call: {}'' [AStr m] \<in> set (fst (main args env post))) \<and>
         last (fst (main args env post)) = Print ''Failed to initiate call.'' []"
proof -
  from assms consider
      (conn) m r where "post (call_url (py_or (url args) (getenv_or env ''SERVER_URL'' ''http://localhost:8765'')) (phone_number args)) = Inl (RequestException m r)"
    | (status) resp where "post (call_url (py_or (url args) (getenv_or env ''SERVER_URL'' ''http://localhost:8765'')) (phone_number args)) = Inr resp" "400 \<le> status_code resp" "status_code resp < 600"
    by blast
  then show ?thesis
  proof cases
    case conn
    then show ?thesis
      by (auto simp: main_def Let_def make_call_unfold split: option.splits)
  next
    case status
    with raise_for_status_cases [of resp] obtain m where
      "raise_for_status resp = Inl (RequestException m (Some (resp_text resp)))" by blast
    with status(1) show ?thesis
      by (auto simp: main_def Let_def make_call_unfold)
  qed
qed

lemma main_success:
  assumes "post (call_url (py_or (url args) (getenv_or env ''SERVER_URL'' ''http://localhost:8765'')) (phone_number args)) = Inr resp"
    and "\<not> (400 \<le> status_code resp \<and> status_code resp < 600)"
    and "json_result resp = Inr (PDict kvs)" and "kvs \<noteq> []"
  shows "main args env post =
           ([HttpPost (call_url (py_or (url args) (getenv_or env ''SERVER_URL'' ''http://localhost:8765'')) (phone_number args)),
             Print ''Call initiated successfully! Call SID: {}'' [AVal (dict_get kvs ''call_sid'')]],
            Finished)"
  using assms raise_for_status_cases [of resp]
  by (simp add: main_def Let_def make_call_unfold)

lemma main_falsy:
  assumes "post (call_url (py_or (url args) (getenv_or env ''SERVER_URL'' ''http://localhost:8765'')) (phone_number args)) = Inr resp"
    and "\<not> (400 \<le> status_code resp \<and> status_code resp < 600)"
    and "json_result resp = Inr v" and "\<not> truthy v"
  shows "main args env post =
           ([HttpPost (call_url (py_or (url args) (getenv_or env ''SERVER_URL'' ''http://localhost:8765'')) (phone_number args)), Print ''Failed to initiate call.'' []], SysExit 1)"
  using assms raise_for_status_cases [of resp]
  by (simp add: main_def Let_def make_call_unfold)

text \<open>
  C7, as amended. The CLI caller sends exactly one POST, with no retry. When the request
  raises a \<open>RequestException\<close> (a connection error, or a status from 400 to 599 through
  \<open>raise_for_status\<close>), it prints the error, then \<open>Failed to initiate call.\<close>, and exits
  with status 1. When no exception is raised (any other status) and the body decodes to a
  non-empty JSON object, it prints that object's \<open>call_sid\<close> (\<open>None\<close> when absent) and
  exits with status 0. When the body decodes to an empty or otherwise false value, it
  prints \<open>Failed to initiate call.\<close> and exits with status 1.
\<close>

theorem cli_exit_status:
  "http_posts (fst (main args env post)) = [(call_url (py_or (url args) (getenv_or env ''SERVER_URL'' ''http://localhost:8765'')) (phone_number args))] \<and>
   ((\<exists>m r. post (call_url (py_or (url args) (getenv_or env ''SERVER_URL'' ''http://localhost:8765'')) (phone_number args)) = Inl (RequestException m r)) \<or>
    (\<exists>resp. post (call_url (py_or (url args) (getenv_or env ''SERVER_URL'' ''http://localhost:8765'')) (phone_number args)) = Inr resp \<and> 400 \<le> status_code resp \<and> status_code resp < 600) \<longrightarrow>
      exit_status (snd (main args env post)) = 1 \<and>
      (\<exists>m. Print ''Error making call: {}'' [AStr m] \<in> set (fst (main args env post))) \<and>
      last (fst (main args env post)) = Print ''Failed to initiate call.'' []) \<and>
   (\<forall>resp kvs. post (call_url (py_or (url args) (getenv_or env ''SERVER_URL'' ''http://localhost:8765'')) (phone_number args)) = Inr resp \<and> \<not> (400 \<le> status_code resp \<and> status_code resp < 600) \<and>
      json_result resp = Inr (PDict kvs) \<and> kvs \<noteq> [] \<longrightarrow>
      exit_status (snd (main args env post)) = 0 \<and>
      last (fst (main args env post)) =
        Print ''Call initiated successfully! Call SID: {}'' [AVal (dict_get kvs ''call_sid'')]) \<and>
   (\<forall>resp v. post (call_url (py_or (url args) (getenv_or env ''SERVER_URL'' ''http://localhost:8765'')) (phone_number args)) = Inr resp \<and> \<not> (400 \<le> status_code resp \<and> status_code resp < 600) \<and>
      json_result resp = Inr v \<and> \<not> truthy v \<longrightarrow>
      exit_status (snd (main args env post)) = 1 \<and>
      last (fst (main args env post)) = Print ''Failed to initiate call.'' [])"
proof -
  have a: "http_posts (fst (main args env post)) = [(call_url (py_or (url args) (getenv_or env ''SERVER_URL'' ''http://localhost:8765'')) (phone_number args))]"
    by (rule main_posts_once)
  have b: "(\<exists>m r. post (call_url (py_or (url args) (getenv_or env ''SERVER_URL'' ''http://localhost:8765'')) (phone_number args)) = Inl (RequestException m r)) \<or>
    (\<exists>resp. post (call_url (py_or (url args) (getenv_or env ''SERVER_URL'' ''http://localhost:8765'')) (phone_number args)) = Inr resp \<and> 400 \<le> status_code resp \<and> status_code resp < 600) \<Longrightarrow>
      exit_status (snd (main args env post)) = 1 \<and>
      (\<exists>m. Print ''Error making call: {}'' [AStr m] \<in> set (fst (main args env post))) \<and>
      last (fst (main args env post)) = Print ''Failed to initiate call.'' []"
    using main_failure [of post args env] by simp
  have c: "\<And>resp kvs. post (call_url (py_or (url args) (getenv_or env ''SERVER_URL'' ''http://localhost:8765'')) (phone_number args)) = Inr resp \<and> \<not> (400 \<le> status_code resp \<and> status_code resp < 600) \<and>
      json_result resp = Inr (PDict kvs) \<and> kvs \<noteq> [] \<Longrightarrow>
      exit_status (snd (main args env post)) = 0 \<and>
      last (fst (main args env post)) =
        Print ''Call initiated successfully! Call SID: {}'' [AVal (dict_get kvs ''call_sid'')]"
    using main_success [of post args env] by simp
  have d: "\<And>resp v. post (call_url (py_or (url args) (getenv_or env ''SERVER_URL'' ''http://localhost:8765'')) (phone_number args)) = Inr resp \<and> \<not> (400 \<le> status_code resp \<and> status_code resp < 600) \<and>
      json_result resp = Inr v \<and> \<not> truthy v \<Longrightarrow>
      exit_status (snd (main args env post)) = 1 \<and>
      last (fst (main args env post)) = Print ''Failed to initiate call.'' []"
    using main_falsy [of post args env] by simp
  from a b c d show ?thesis by blast
qed


theorem cli_exit_status_witness:
  "exit_status (snd (main \<lparr>phone_number = ''+15551234567'', url = None\<rparr> Map.empty
      (\<lambda>u. Inl (RequestException ''Connection refused'' None)))) = 1 \<and>
   exit_status (snd (main \<lparr>phone_number = ''+15551234567'', url = None\<rparr> Map.empty
      (\<lambda>u. Inr \<lparr>status_code = 200, reason = ''OK'', resp_url = u, resp_text = ''{...}'', json_result = Inr (PDict [(''call_sid'', PStr ''CA123'')])\<rparr>))) = 0 \<and>
   last (fst (main \<lparr>phone_number = ''+15551234567'', url = None\<rparr> Map.empty
      (\<lambda>u. Inr \<lparr>status_code = 200, reason = ''OK'', resp_url = u, resp_text = ''{...}'', json_result = Inr (PDict [(''call_sid'', PStr ''CA123'')])\<rparr>))) =
     Print ''Call initiated successfully! Call SID: {}'' [AVal (PStr ''CA123'')]"
  using cli_exit_status [of "\<lparr>phone_number = ''+15551234567'', url = None\<rparr>" Map.empty
      "\<lambda>u. Inl (RequestException ''Connection refused'' None)"]
    cli_exit_status [of "\<lparr>phone_number = ''+15551234567'', url = None\<rparr>" Map.empty
      "\<lambda>u. Inr \<lparr>status_code = 200, reason = ''OK'', resp_url = u, resp_text = ''{...}'', json_result = Inr (PDict [(''call_sid'', PStr ''CA123'')])\<rparr>"]
  by (simp add: dict_get_def)

text \<open>
  C7, as stated, fails twice: an answer 200 whose body is the empty object ends with
  status 1, though the request succeeded; and an answer 300, which is not 2xx, with a
  \<open>call_sid\<close> in its body ends with status 0, since \<open>raise_for_status\<close> raises for 4xx
  and 5xx only.
\<close>

theorem cli_exit_status_counterexample:
  "main \<lparr>phone_number = ''+15551234567'', url = None\<rparr> Map.empty
      (\<lambda>u. Inr \<lparr>status_code = 200, reason = ''OK'', resp_url = u, resp_text = ''{}'', json_result = Inr (PDict [])\<rparr>) =
     ([HttpPost ''http://localhost:8765/call/+15551234567'',
       Print ''Failed to initiate call.'' []], SysExit 1) \<and>
   exit_status (snd (main \<lparr>phone_number = ''+15551234567'', url = None\<rparr> Map.empty
      (\<lambda>u. Inr \<lparr>status_code = 200, reason = ''OK'', resp_url = u, resp_text = ''{}'', json_result = Inr (PDict [])\<rparr>))) = 1 \<and>
   exit_status (snd (main \<lparr>phone_number = ''+15551234567'', url = None\<rparr> Map.empty
      (\<lambda>u. Inr \<lparr>status_code = 300, reason = ''Multiple Choices'', resp_url = u, resp_text = ''{...}'', json_result = Inr (PDict [(''call_sid'', PStr ''CA123'')])\<rparr>))) = 0"
  by (simp add: main_def Let_def make_call_unfold raise_for_status_def py_or_def getenv_or_def
        call_url_def rstrip_slash_def)

section \<open>Properties of the routes\<close>











end
